theory Spec2Isabelle
  imports Main
begin

section \<open>Errors and HTTP responses\<close>

text \<open>
  Both resources address a remote object by a structured id. The relay namespace id
  (\<open>namespaces2.NamespaceId\<close>) has the three fields the resource reads: \<open>id.SubscriptionId\<close>,
  \<open>id.ResourceGroup\<close>, \<open>id.Name\<close>; the workspace id (\<open>workspaces.WorkspaceId\<close>) has
  \<open>SubscriptionId\<close>, \<open>ResourceGroupName\<close>, \<open>WorkspaceName\<close>.
\<close>

record NamespaceId =
  ns_SubscriptionId :: string
  ns_ResourceGroup :: string
  ns_Name :: string

record AuthorizationRuleId =
  ar_SubscriptionId :: string
  ar_ResourceGroup :: string
  ar_NamespaceName :: string
  ar_Name :: string

record WorkspaceId =
  ws_SubscriptionId :: string
  ws_ResourceGroupName :: string
  ws_WorkspaceName :: string

text \<open>
  An \<open>error\<close> value. \<open>fmt.Errorf(format, args..., err)\<close> keeps its format string, the
  arguments printed before the wrapped error, and the wrapped error (\<open>None\<close> when the
  message wraps nothing). \<open>ClientError\<close> is an error value handed back by an API client
  or by a helper outside these two files.
\<close>

datatype arg =
    ArgNamespaceId NamespaceId
  | ArgWorkspaceId WorkspaceId
  | ArgString string

datatype error =
    ClientError string
  | Errorf string "arg list" "error option"
  | ImportAsExistsError string string
  | TimeoutError

text \<open>
  \<open>resp.HttpResponse\<close> is a \<open>*http.Response\<close>: \<open>None\<close> is the nil pointer, \<open>Some c\<close> a
  response with \<open>StatusCode = c\<close> (the only field that is read).
\<close>

type_synonym HttpResponse = "nat option"

text \<open>
  Modelled from the spec: \<open>response.WasNotFound\<close> is not among the source files. The spec's
  \<open>NotFound\<close> response is the HTTP status 404 and every other failure is a
  "non-404 failure"; a nil response is not a \<open>NotFound\<close>.
\<close>

definition WasNotFound :: "HttpResponse \<Rightarrow> bool" where
  "WasNotFound resp = (case resp of None \<Rightarrow> False | Some c \<Rightarrow> c = 404)"

text \<open>Storing a nil \<open>*string\<close> with \<open>d.Set\<close> leaves the empty string in the field.\<close>

definition deref_string :: "string option \<Rightarrow> string" where
  "deref_string p = (case p of None \<Rightarrow> [] | Some s \<Rightarrow> s)"

section \<open>Relay namespace: data\<close>

record Sku =
  sku_Name :: string
  sku_Tier :: "string option"

record RelayNamespaceProperties =
  props_MetricId :: "string option"

record RelayNamespace =
  rn_Location :: string
  rn_Sku :: "Sku option"
  rn_Properties :: "RelayNamespaceProperties option"
  rn_Tags :: "(string \<times> string) list option"

record AccessKeys =
  PrimaryConnectionString :: "string option"
  PrimaryKey :: "string option"
  SecondaryConnectionString :: "string option"
  SecondaryKey :: "string option"

text \<open>The result of \<open>client.Get\<close>: the HTTP response and the decoded model.\<close>

record GetOperationResponse =
  get_HttpResponse :: HttpResponse
  get_Model :: "RelayNamespace option"

record ListKeysOperationResponse =
  keys_HttpResponse :: HttpResponse
  keys_Model :: "AccessKeys option"

text \<open>
  The result of \<open>client.Delete\<close>: the HTTP response and the long-running operation's
  poller (\<open>True\<close>: the operation reports itself finished). The resource discards both.
\<close>

record DeleteOperationResponse =
  del_HttpResponse :: HttpResponse
  del_PollerDone :: bool

text \<open>
  \<open>pluginsdk.ResourceData\<close> of the relay namespace: the stored id, the new-resource
  flag, the delete timeout (seconds) and one field per schema attribute.
\<close>

record RelayData =
  d_Id :: string
  d_IsNewResource :: bool
  d_TimeoutDelete :: nat
  d_name :: string
  d_location :: string
  d_resource_group_name :: string
  d_sku_name :: string
  d_metric_id :: string
  d_primary_connection_string :: string
  d_secondary_connection_string :: string
  d_primary_key :: string
  d_secondary_key :: string
  d_tags :: "(string \<times> string) list"

text \<open>
  What \<open>meta\<close> and the packages outside this file supply: the subscription id of the
  account, the id parser and formatter of the generated SDK, and the location and tag
  helpers. They are parameters of every operation.
\<close>

record RelayMeta =
  SubscriptionId :: string
  ParseNamespaceID :: "string \<Rightarrow> error + NamespaceId"
  NamespaceID_ID :: "NamespaceId \<Rightarrow> string"
  NormalizeLocation :: "string \<Rightarrow> string"
  location_Normalize :: "string \<Rightarrow> string"
  expandTags :: "(string \<times> string) list \<Rightarrow> (string \<times> string) list option"
  flattenTags :: "(string \<times> string) list option \<Rightarrow> (string \<times> string) list"
  tags_FlattenAndSet :: "(string \<times> string) list \<Rightarrow> RelayData \<Rightarrow> error option \<times> RelayData"

definition NewNamespaceID :: "string \<Rightarrow> string \<Rightarrow> string \<Rightarrow> NamespaceId" where
  "NewNamespaceID subscriptionId resourceGroup name =
     \<lparr>ns_SubscriptionId = subscriptionId, ns_ResourceGroup = resourceGroup, ns_Name = name\<rparr>"

definition NewAuthorizationRuleID :: "string \<Rightarrow> string \<Rightarrow> string \<Rightarrow> string \<Rightarrow> AuthorizationRuleId" where
  "NewAuthorizationRuleID subscriptionId resourceGroup namespaceName name =
     \<lparr>ar_SubscriptionId = subscriptionId, ar_ResourceGroup = resourceGroup,
      ar_NamespaceName = namespaceName, ar_Name = name\<rparr>"

section \<open>Relay namespace: the remote API\<close>

text \<open>
  The API client is a collaborator. A run sees it as a script of answers and leaves a log
  of the requests it made, each stamped with the time (seconds on a logical clock) at
  which it was sent. The \<open>n\<close>-th \<open>Get\<close> of a run (counting from 0) is answered by
  \<open>get_responses n\<close>. Only waiting between two ticks of the poll moves the clock; a
  request is answered at the time it is sent.
\<close>

datatype RelayCall =
    GetCall NamespaceId
  | DeleteCall NamespaceId
  | CreateOrUpdateCall NamespaceId RelayNamespace
  | ListKeysCall AuthorizationRuleId

record RelayWorld =
  get_responses :: "nat \<Rightarrow> GetOperationResponse \<times> error option"
  delete_response :: "DeleteOperationResponse \<times> error option"
  create_response :: "error option"
  listkeys_response :: "ListKeysOperationResponse \<times> error option"
  clock :: nat
  calls :: "(nat \<times> RelayCall) list"

fun is_GetCall :: "RelayCall \<Rightarrow> bool" where
  "is_GetCall (GetCall _) = True"
| "is_GetCall _ = False"

fun is_DeleteCall :: "RelayCall \<Rightarrow> bool" where
  "is_DeleteCall (DeleteCall _) = True"
| "is_DeleteCall _ = False"

fun is_CreateOrUpdateCall :: "RelayCall \<Rightarrow> bool" where
  "is_CreateOrUpdateCall (CreateOrUpdateCall _ _) = True"
| "is_CreateOrUpdateCall _ = False"

text \<open>The times at which the existence probes (\<open>Get\<close>) of a log were sent.\<close>

definition probe_times :: "(nat \<times> RelayCall) list \<Rightarrow> nat list" where
  "probe_times cs = map fst (filter (\<lambda>c. is_GetCall (snd c)) cs)"

definition record_call :: "RelayCall \<Rightarrow> RelayWorld \<Rightarrow> RelayWorld" where
  "record_call c w = w\<lparr>calls := calls w @ [(clock w, c)]\<rparr>"

definition client_Get ::
    "NamespaceId \<Rightarrow> RelayWorld \<Rightarrow> (GetOperationResponse \<times> error option) \<times> RelayWorld" where
  "client_Get nid w = (get_responses w (length (probe_times (calls w))), record_call (GetCall nid) w)"

definition client_Delete ::
    "NamespaceId \<Rightarrow> RelayWorld \<Rightarrow> (DeleteOperationResponse \<times> error option) \<times> RelayWorld" where
  "client_Delete nid w = (delete_response w, record_call (DeleteCall nid) w)"

definition client_CreateOrUpdateThenPoll ::
    "NamespaceId \<Rightarrow> RelayNamespace \<Rightarrow> RelayWorld \<Rightarrow> error option \<times> RelayWorld" where
  "client_CreateOrUpdateThenPoll nid parameters w =
     (create_response w, record_call (CreateOrUpdateCall nid parameters) w)"

definition client_ListKeys ::
    "AuthorizationRuleId \<Rightarrow> RelayWorld \<Rightarrow> (ListKeysOperationResponse \<times> error option) \<times> RelayWorld" where
  "client_ListKeys nid w = (listkeys_response w, record_call (ListKeysCall nid) w)"

section \<open>Relay namespace: the delete-confirmation poll\<close>

text \<open>
  \<open>relayNamespaceDeleteRefreshFunc\<close>: one existence probe. It returns the triple
  (result, state, error) of a \<open>pluginsdk.StateRefreshFunc\<close>; the result is \<open>None\<close> for
  Go's \<open>nil\<close>.
\<close>

type_synonym RefreshResult = "GetOperationResponse option \<times> string \<times> error option"

definition relayNamespaceDeleteRefreshFunc ::
    "NamespaceId \<Rightarrow> RelayWorld \<Rightarrow> RefreshResult \<times> RelayWorld" where
  "relayNamespaceDeleteRefreshFunc nid w =
     (case client_Get nid w of
        ((res, err), w') \<Rightarrow>
          (case err of
             Some e \<Rightarrow>
               if WasNotFound (get_HttpResponse res) then ((Some res, ''Deleted'', None), w')
               else ((None, ''Error'',
                      Some (Errorf ''retrieving %s: %+v'' [ArgNamespaceId nid] (Some e))), w')
           | None \<Rightarrow> ((Some res, ''Pending'', None), w')))"

text \<open>
  \<open>pluginsdk.StateChangeConf\<close>, with the fields that \<open>resourceRelayNamespaceDelete\<close>
  sets. Durations are in seconds.
\<close>

record StateChangeConf =
  Pending :: "string list"
  Target :: "string list"
  Refresh :: "RelayWorld \<Rightarrow> RefreshResult \<times> RelayWorld"
  MinTimeout :: nat
  Timeout :: nat

text \<open>Waiting moves the logical clock and nothing else.\<close>

definition sleep_until :: "nat \<Rightarrow> RelayWorld \<Rightarrow> RelayWorld" where
  "sleep_until t w = w\<lparr>clock := t\<rparr>"

text \<open>
  Modelled from the spec: \<open>StateChangeConf.WaitForStateContext\<close> is not among the source
  files (only its call in \<open>resourceRelayNamespaceDelete\<close> is). Following section 4.1, steps
  2 to 4, and section 5 of the spec: on each tick the refresh function is called; an error
  from it stops the loop and is surfaced; a target state stops the loop with success;
  otherwise the loop stays pending and waits the minimum interval for the next tick. The
  deadline is honoured at every suspension point: a wait ends at the deadline when the
  deadline comes first, and a tick that finds the deadline elapsed signals
  \<open>TimeoutError\<close> without probing. A loop that never returns is the value \<open>None\<close>.
\<close>

partial_function (option) wait_loop ::
    "StateChangeConf \<Rightarrow> nat \<Rightarrow> RelayWorld \<Rightarrow>
       ((GetOperationResponse option \<times> error option) \<times> RelayWorld) option" where
  "wait_loop conf deadline w =
     (if deadline \<le> clock w then Some ((None, Some TimeoutError), w)
      else
        (case Refresh conf w of
           ((res, currentState, err), w') \<Rightarrow>
             (case err of
                Some e \<Rightarrow> Some ((None, Some e), w')
              | None \<Rightarrow>
                  if currentState \<in> set (Target conf) then Some ((res, None), w')
                  else wait_loop conf deadline
                         (sleep_until (min (clock w' + MinTimeout conf) deadline) w'))))"

text \<open>
  Modelled from the spec: the entry point of the poll. The deadline is the caller-supplied
  timeout counted from the time of the call.
\<close>

definition WaitForStateContext ::
    "StateChangeConf \<Rightarrow> RelayWorld \<Rightarrow>
       ((GetOperationResponse option \<times> error option) \<times> RelayWorld) option" where
  "WaitForStateContext conf w = wait_loop conf (clock w + Timeout conf) w"

section \<open>Relay namespace: Delete\<close>

text \<open>
  \<open>resourceRelayNamespaceDelete\<close>. The result is the returned \<open>error\<close> (\<open>None\<close> for
  \<open>nil\<close>) and the world after the run; \<open>None\<close> as a whole when the poll never returns.
\<close>

definition resourceRelayNamespaceDelete ::
    "RelayMeta \<Rightarrow> RelayData \<Rightarrow> RelayWorld \<Rightarrow> (error option \<times> RelayWorld) option" where
  "resourceRelayNamespaceDelete meta d w =
     (case ParseNamespaceID meta (d_Id d) of
        Inl err \<Rightarrow> Some (Some err, w)
      | Inr nid \<Rightarrow>
          (case client_Delete nid w of
             ((_, Some err), w1) \<Rightarrow>
                Some (Some (Errorf ''deleting %s: %+v'' [ArgNamespaceId nid] (Some err)), w1)
           | ((_, None), w1) \<Rightarrow>
                (case WaitForStateContext
                        \<lparr>Pending = [''Pending''], Target = [''Deleted''],
                         Refresh = relayNamespaceDeleteRefreshFunc nid,
                         MinTimeout = 15, Timeout = d_TimeoutDelete d\<rparr> w1 of
                   None \<Rightarrow> None
                 | Some ((_, Some err), w2) \<Rightarrow>
                     Some (Some (Errorf ''waiting for deletion of %s: %+v''
                                   [ArgNamespaceId nid] (Some err)), w2)
                 | Some ((_, None), w2) \<Rightarrow> Some (None, w2))))"


section \<open>Relay namespace: Read\<close>

text \<open>The block \<open>if model := resp.Model; model != nil\<close> of the read.\<close>

definition set_model_fields ::
    "RelayMeta \<Rightarrow> RelayNamespace option \<Rightarrow> RelayData \<Rightarrow> error option \<times> RelayData" where
  "set_model_fields meta m d =
     (case m of
        None \<Rightarrow> (None, d)
      | Some model \<Rightarrow>
          (let d1 = d\<lparr>d_location := location_Normalize meta (rn_Location model)\<rparr>;
               d2 = (case rn_Sku model of
                       None \<Rightarrow> d1
                     | Some sku \<Rightarrow> d1\<lparr>d_sku_name := sku_Name sku\<rparr>);
               d3 = (case rn_Properties model of
                       None \<Rightarrow> d2
                     | Some props \<Rightarrow> d2\<lparr>d_metric_id := deref_string (props_MetricId props)\<rparr>)
           in tags_FlattenAndSet meta (flattenTags meta (rn_Tags model)) d3))"

text \<open>The block \<open>if model := keysResp.Model; model != nil\<close> of the read.\<close>

definition set_key_fields :: "AccessKeys option \<Rightarrow> RelayData \<Rightarrow> RelayData" where
  "set_key_fields m d =
     (case m of
        None \<Rightarrow> d
      | Some model \<Rightarrow>
          d\<lparr>d_primary_connection_string := deref_string (PrimaryConnectionString model),
            d_primary_key := deref_string (PrimaryKey model),
            d_secondary_connection_string := deref_string (SecondaryConnectionString model),
            d_secondary_key := deref_string (SecondaryKey model)\<rparr>)"

definition resourceRelayNamespaceRead ::
    "RelayMeta \<Rightarrow> RelayData \<Rightarrow> RelayWorld \<Rightarrow> error option \<times> RelayData \<times> RelayWorld" where
  "resourceRelayNamespaceRead meta d w =
     (case ParseNamespaceID meta (d_Id d) of
        Inl err \<Rightarrow> (Some err, d, w)
      | Inr nid \<Rightarrow>
          (case client_Get nid w of
             ((resp, Some err), w1) \<Rightarrow>
                if WasNotFound (get_HttpResponse resp) then (None, d\<lparr>d_Id := []\<rparr>, w1)
                else (Some (Errorf ''retrieving %s: %+v'' [ArgNamespaceId nid] (Some err)), d, w1)
           | ((resp, None), w1) \<Rightarrow>
                (let authRuleId = NewAuthorizationRuleID (ns_SubscriptionId nid)
                                    (ns_ResourceGroup nid) (ns_Name nid) ''RootManageSharedAccessKey''
                 in case client_ListKeys authRuleId w1 of
                      ((keysResp, Some err), w2) \<Rightarrow>
                         (Some (Errorf ''listing keys for %s: %+v'' [ArgNamespaceId nid] (Some err)),
                          d, w2)
                    | ((keysResp, None), w2) \<Rightarrow>
                         (case set_model_fields meta (get_Model resp)
                                 (d\<lparr>d_name := ns_Name nid,
                                    d_resource_group_name := ns_ResourceGroup nid\<rparr>) of
                            (Some err, d2) \<Rightarrow> (Some err, d2, w2)
                          | (None, d2) \<Rightarrow> (None, set_key_fields (keys_Model keysResp) d2, w2)))))"

section \<open>Relay namespace: Create and Update\<close>

definition resourceRelayNamespaceCreateUpdate ::
    "RelayMeta \<Rightarrow> RelayData \<Rightarrow> RelayWorld \<Rightarrow> error option \<times> RelayData \<times> RelayWorld" where
  "resourceRelayNamespaceCreateUpdate meta d w =
     (let nid = NewNamespaceID (SubscriptionId meta) (d_resource_group_name d) (d_name d) in
      case (if d_IsNewResource d then
              (case client_Get nid w of
                 ((existing, err), w1) \<Rightarrow>
                   if err \<noteq> None \<and> \<not> WasNotFound (get_HttpResponse existing) then
                     (Some (Errorf ''checking for presence of existing %s: %+v''
                              [ArgNamespaceId nid] err), w1)
                   else if \<not> WasNotFound (get_HttpResponse existing) then
                     (Some (ImportAsExistsError ''azurerm_relay_namespace''
                              (NamespaceID_ID meta nid)), w1)
                   else (None, w1))
            else (None, w)) of
        (Some err, w1) \<Rightarrow> (Some err, d, w1)
      | (None, w1) \<Rightarrow>
          (let skuTier = d_sku_name d;
               parameters =
                 \<lparr>rn_Location = NormalizeLocation meta (d_location d),
                  rn_Sku = Some \<lparr>sku_Name = d_sku_name d, sku_Tier = Some skuTier\<rparr>,
                  rn_Properties = Some \<lparr>props_MetricId = None\<rparr>,
                  rn_Tags = expandTags meta (d_tags d)\<rparr>
           in case client_CreateOrUpdateThenPoll nid parameters w1 of
                (Some err, w2) \<Rightarrow>
                   (Some (Errorf ''creating/updating %s: %+v'' [ArgNamespaceId nid] (Some err)),
                    d, w2)
              | (None, w2) \<Rightarrow>
                   resourceRelayNamespaceRead meta (d\<lparr>d_Id := NamespaceID_ID meta nid\<rparr>) w2))"


section \<open>Machine learning workspace: data\<close>

text \<open>
  The configuration blocks, typed as the schema types them (\<open>TypeString\<close>, \<open>TypeBool\<close>).
  A block list is a \<open>[]interface{}\<close>; an element may be \<open>nil\<close> (\<open>None\<close>).
\<close>

record IdentityBlock =
  identity_type :: string
  identity_ids :: "string list"

record EncryptionBlock =
  enc_key_vault_id :: string
  enc_key_id :: string
  enc_user_assigned_identity_id :: string

record ManagedNetworkBlock =
  isolation_mode :: string

record ServerlessComputeBlock =
  public_ip_enabled :: bool
  subnet_id :: string

record FeatureStoreBlock =
  computer_spark_runtime_version :: string
  offline_connection_name :: string
  online_connection_name :: string

text \<open>The request and response structures of the \<open>workspaces\<close> SDK package.\<close>

record UserAssignedIdentityDetails =
  ClientId :: "string option"
  PrincipalId :: "string option"

record SystemAndUserAssignedMap =
  sid_Type :: string
  sid_IdentityIds :: "(string \<times> UserAssignedIdentityDetails) list"

record LegacySystemAndUserAssignedMap =
  lid_Type :: string
  lid_IdentityIds :: "(string \<times> UserAssignedIdentityDetails) list option"

record IdentityForCmk =
  UserAssignedIdentity :: "string option"

record EncryptionKeyVaultProperties =
  KeyVaultArmId :: string
  KeyIdentifier :: string

datatype EncryptionStatus = EncryptionStatusEnabled | EncryptionStatusDisabled

record EncryptionProperty =
  enc_Identity :: "IdentityForCmk option"
  enc_KeyVaultProperties :: EncryptionKeyVaultProperties
  enc_Status :: EncryptionStatus

record ManagedNetworkSettings =
  IsolationMode :: "string option"

record ServerlessComputeSettings =
  ServerlessComputeNoPublicIP :: "bool option"
  ServerlessComputeCustomSubnet :: "string option"

record ComputeRuntimeDto =
  SparkRuntimeVersion :: "string option"

record FeatureStoreSettings =
  ComputeRuntime :: "ComputeRuntimeDto option"
  OfflineStoreConnectionName :: "string option"
  OnlineStoreConnectionName :: "string option"

datatype PublicNetworkAccess = PublicNetworkAccessEnabled | PublicNetworkAccessDisabled

record WorkspaceProperties =
  ApplicationInsights :: "string option"
  Encryption :: "EncryptionProperty option"
  KeyVault :: "string option"
  ManagedNetwork :: "ManagedNetworkSettings option"
  PublicNetworkAccess :: "PublicNetworkAccess option"
  StorageAccount :: "string option"
  V1LegacyMode :: "bool option"
  ServerlessComputeSettings :: "ServerlessComputeSettings option"
  Description :: "string option"
  FriendlyName :: "string option"
  ContainerRegistry :: "string option"
  HbiWorkspace :: "bool option"
  ImageBuildCompute :: "string option"
  PrimaryUserAssignedIdentity :: "string option"
  FeatureStoreSettings :: "FeatureStoreSettings option"

record Workspace =
  Workspace_Name :: "string option"
  Workspace_Location :: "string option"
  Workspace_Tags :: "(string \<times> string) list option"
  Workspace_Sku :: "Sku option"
  Workspace_Kind :: "string option"
  Workspace_Identity :: "LegacySystemAndUserAssignedMap option"
  Workspace_Properties :: "WorkspaceProperties option"

record WorkspaceGetResponse =
  wsget_HttpResponse :: HttpResponse
  wsget_Model :: "Workspace option"

text \<open>
  \<open>pluginsdk.ResourceData\<close> of the workspace. \<open>ml_public_network_access_enabled\<close> is what
  \<open>d.GetOkExists\<close> returns (\<open>None\<close>: not set);
  \<open>ml_serverless_public_ip_enabled_change\<close> is the pair (old, new) that
  \<open>d.GetChange("serverless_compute.0.public_ip_enabled")\<close> returns.
\<close>

record MLData =
  ml_Id :: string
  ml_IsNewResource :: bool
  ml_name :: string
  ml_resource_group_name :: string
  ml_location :: string
  ml_tags :: "(string \<times> string) list"
  ml_sku_name :: string
  ml_kind :: string
  ml_identity :: "IdentityBlock option list"
  ml_encryption :: "EncryptionBlock option list"
  ml_public_network_access_enabled :: "bool option"
  ml_application_insights_id :: string
  ml_key_vault_id :: string
  ml_managed_network :: "ManagedNetworkBlock option list"
  ml_storage_account_id :: string
  ml_v1_legacy_mode_enabled :: bool
  ml_serverless_compute :: "ServerlessComputeBlock option list"
  ml_serverless_public_ip_enabled_change :: "bool \<times> bool"
  ml_description :: string
  ml_friendly_name :: string
  ml_container_registry_id :: string
  ml_high_business_impact :: bool
  ml_image_build_compute_name :: string
  ml_primary_user_assigned_identity :: string
  ml_feature_store :: "FeatureStoreBlock option list"

text \<open>
  What \<open>meta\<close> and other packages supply to the workspace resource. \<open>read_into_state\<close>
  stands for lines 426 to 496 of the read: they copy the fetched model into the resource
  data through parsers and flatteners of other packages and send no request.
\<close>

record MLMeta =
  ml_SubscriptionId :: string
  ParseWorkspaceID :: "string \<Rightarrow> error + WorkspaceId"
  WorkspaceID_ID :: "WorkspaceId \<Rightarrow> string"
  ml_NormalizeLocation :: "string \<Rightarrow> string"
  tags_Expand :: "(string \<times> string) list \<Rightarrow> (string \<times> string) list option"
  ExpandSystemAndUserAssignedMap :: "IdentityBlock option list \<Rightarrow> error + SystemAndUserAssignedMap"
  read_into_state :: "WorkspaceId \<Rightarrow> WorkspaceGetResponse \<Rightarrow> MLData \<Rightarrow> error option \<times> MLData"

definition NewWorkspaceID :: "string \<Rightarrow> string \<Rightarrow> string \<Rightarrow> WorkspaceId" where
  "NewWorkspaceID subscriptionId resourceGroupName workspaceName =
     \<lparr>ws_SubscriptionId = subscriptionId, ws_ResourceGroupName = resourceGroupName,
      ws_WorkspaceName = workspaceName\<rparr>"

section \<open>Machine learning workspace: the remote API\<close>

text \<open>
  \<open>client.CreateOrUpdate\<close> answers with a future and an error; the future is given by
  what \<open>future.Poller.PollUntilDone\<close> will return.
\<close>

datatype MLCall =
    MLGetCall WorkspaceId
  | MLCreateOrUpdateCall WorkspaceId Workspace
  | MLPollUntilDoneCall

record MLWorld =
  ml_get_responses :: "nat \<Rightarrow> WorkspaceGetResponse \<times> error option"
  ml_create_response :: "error option \<times> error option"
  ml_calls :: "MLCall list"

fun is_MLGetCall :: "MLCall \<Rightarrow> bool" where
  "is_MLGetCall (MLGetCall _) = True"
| "is_MLGetCall _ = False"

fun is_MLCreateOrUpdateCall :: "MLCall \<Rightarrow> bool" where
  "is_MLCreateOrUpdateCall (MLCreateOrUpdateCall _ _) = True"
| "is_MLCreateOrUpdateCall _ = False"

definition ml_client_Get ::
    "WorkspaceId \<Rightarrow> MLWorld \<Rightarrow> (WorkspaceGetResponse \<times> error option) \<times> MLWorld" where
  "ml_client_Get wid w =
     (ml_get_responses w (length (filter is_MLGetCall (ml_calls w))),
      w\<lparr>ml_calls := ml_calls w @ [MLGetCall wid]\<rparr>)"

definition ml_client_CreateOrUpdate ::
    "WorkspaceId \<Rightarrow> Workspace \<Rightarrow> MLWorld \<Rightarrow> (error option \<times> error option) \<times> MLWorld" where
  "ml_client_CreateOrUpdate wid workspace w =
     (ml_create_response w, w\<lparr>ml_calls := ml_calls w @ [MLCreateOrUpdateCall wid workspace]\<rparr>)"

definition PollUntilDone :: "error option \<Rightarrow> MLWorld \<Rightarrow> error option \<times> MLWorld" where
  "PollUntilDone future w = (future, w\<lparr>ml_calls := ml_calls w @ [MLPollUntilDoneCall]\<rparr>)"

section \<open>Machine learning workspace: expand and flatten\<close>

definition expandMachineLearningWorkspaceIdentity ::
    "MLMeta \<Rightarrow> IdentityBlock option list \<Rightarrow> error + LegacySystemAndUserAssignedMap" where
  "expandMachineLearningWorkspaceIdentity meta input =
     (case ExpandSystemAndUserAssignedMap meta input of
        Inl err \<Rightarrow> Inl err
      | Inr expanded \<Rightarrow>
          Inr \<lparr>lid_Type = sid_Type expanded,
               lid_IdentityIds =
                 (if 0 < length (sid_IdentityIds expanded)
                  then Some (map (\<lambda>kv. (fst kv, \<lparr>ClientId = None, PrincipalId = None\<rparr>))
                               (sid_IdentityIds expanded))
                  else None)\<rparr>)"

definition expandMachineLearningWorkspaceEncryption ::
    "EncryptionBlock option list \<Rightarrow> EncryptionProperty option" where
  "expandMachineLearningWorkspaceEncryption input =
     (case input of
        [] \<Rightarrow> None
      | None # _ \<Rightarrow> None
      | Some raw # _ \<Rightarrow>
          Some \<lparr>enc_Identity =
                  Some \<lparr>UserAssignedIdentity =
                          (if enc_user_assigned_identity_id raw \<noteq> []
                           then Some (enc_user_assigned_identity_id raw) else None)\<rparr>,
                enc_KeyVaultProperties =
                  \<lparr>KeyVaultArmId = enc_key_vault_id raw, KeyIdentifier = enc_key_id raw\<rparr>,
                enc_Status = EncryptionStatusEnabled\<rparr>)"

definition expandMachineLearningWorkspaceFeatureStore ::
    "FeatureStoreBlock option list \<Rightarrow> FeatureStoreSettings option" where
  "expandMachineLearningWorkspaceFeatureStore input =
     (case input of
        [] \<Rightarrow> None
      | None # _ \<Rightarrow> None
      | Some raw # _ \<Rightarrow>
          Some \<lparr>ComputeRuntime =
                  (if computer_spark_runtime_version raw \<noteq> []
                   then Some \<lparr>SparkRuntimeVersion = Some (computer_spark_runtime_version raw)\<rparr>
                   else None),
                OfflineStoreConnectionName =
                  (if offline_connection_name raw \<noteq> []
                   then Some (offline_connection_name raw) else None),
                OnlineStoreConnectionName =
                  (if online_connection_name raw \<noteq> []
                   then Some (online_connection_name raw) else None)\<rparr>)"

definition expandMachineLearningWorkspaceManagedNetwork ::
    "ManagedNetworkBlock option list \<Rightarrow> ManagedNetworkSettings option" where
  "expandMachineLearningWorkspaceManagedNetwork i =
     (case i of
        [] \<Rightarrow> None
      | None # _ \<Rightarrow> None
      | Some v # _ \<Rightarrow> Some \<lparr>IsolationMode = Some (isolation_mode v)\<rparr>)"

text \<open>
  \<open>expandMachineLearningWorkspaceServerlessCompute\<close>. The block is typed, so the
  comma-ok assertion \<open>v["subnet_id"].(string)\<close> succeeds and only the emptiness test
  remains.
\<close>

definition expandMachineLearningWorkspaceServerlessCompute ::
    "ServerlessComputeBlock option list \<Rightarrow> ServerlessComputeSettings option" where
  "expandMachineLearningWorkspaceServerlessCompute i =
     (case i of
        [] \<Rightarrow> None
      | None # _ \<Rightarrow> None
      | Some v # _ \<Rightarrow>
          Some \<lparr>ServerlessComputeNoPublicIP = Some (\<not> public_ip_enabled v),
                ServerlessComputeCustomSubnet =
                  (if subnet_id v \<noteq> [] then Some (subnet_id v) else None)\<rparr>)"

text \<open>
  A flattened block is a \<open>map[string]interface{}\<close>: a key that was never assigned is
  absent from it.
\<close>

datatype val = VBool bool | VString string

definition flattenMachineLearningWorkspaceServerlessCompute ::
    "ServerlessComputeSettings option \<Rightarrow> (string \<rightharpoonup> val) list" where
  "flattenMachineLearningWorkspaceServerlessCompute i =
     (case i of
        None \<Rightarrow> []
      | Some s \<Rightarrow>
          (let out = Map.empty;
               out1 = (case ServerlessComputeCustomSubnet s of
                         None \<Rightarrow> out
                       | Some subnet \<Rightarrow> out(''subnet_id'' \<mapsto> VString subnet));
               out2 = (case ServerlessComputeNoPublicIP s of
                         None \<Rightarrow> out1
                       | Some noPublicIP \<Rightarrow> out1(''public_ip_enabled'' \<mapsto> VBool (\<not> noPublicIP)))
           in [out2]))"


section \<open>Machine learning workspace: Read\<close>

definition resourceMachineLearningWorkspaceRead ::
    "MLMeta \<Rightarrow> MLData \<Rightarrow> MLWorld \<Rightarrow> error option \<times> MLData \<times> MLWorld" where
  "resourceMachineLearningWorkspaceRead meta d w =
     (case ParseWorkspaceID meta (ml_Id d) of
        Inl err \<Rightarrow>
          (Some (Errorf ''parsing Machine Learning Workspace ID `%q`: %+v''
                   [ArgString (ml_Id d)] (Some err)), d, w)
      | Inr wid \<Rightarrow>
          (case ml_client_Get wid w of
             ((resp, Some err), w1) \<Rightarrow>
                if WasNotFound (wsget_HttpResponse resp) then (None, d\<lparr>ml_Id := []\<rparr>, w1)
                else (Some (Errorf
                        ''making Read request on Workspace %q (Resource Group %q): %+v''
                        [ArgString (ws_WorkspaceName wid), ArgString (ws_ResourceGroupName wid)]
                        (Some err)), d, w1)
           | ((resp, None), w1) \<Rightarrow>
                (case read_into_state meta wid resp d of (err, d') \<Rightarrow> (err, d', w1))))"

section \<open>Machine learning workspace: Create and Update\<close>

text \<open>
  \<open>strings.EqualFold\<close> compares under Unicode simple case folding. On byte strings this is
  the comparison below whenever one argument is made of ASCII letters other than \<open>k\<close> and
  \<open>s\<close> (the only ASCII letters that a non-ASCII rune folds to), as \<open>"Default"\<close> is.
\<close>

definition fold_ascii :: "char \<Rightarrow> char" where
  "fold_ascii c =
     (let n = (of_char c :: nat) in if 65 \<le> n \<and> n \<le> 90 then char_of (n + 32) else c)"

definition EqualFold :: "string \<Rightarrow> string \<Rightarrow> bool" where
  "EqualFold s t = (map fold_ascii s = map fold_ascii t)"

text \<open>
  Lines 302 to 392 of \<open>resourceMachineLearningWorkspaceCreateOrUpdate\<close>: the request body
  built from the configuration, or the first validation error. No request is sent here.
  \<open>expand\<close> always sets \<open>ServerlessComputeNoPublicIP\<close>, so its dereference is the test
  \<open>= Some True\<close>.
\<close>

definition build_workspace :: "MLMeta \<Rightarrow> MLData \<Rightarrow> WorkspaceId \<Rightarrow> error + Workspace" where
  "build_workspace meta d wid =
     (case expandMachineLearningWorkspaceIdentity meta (ml_identity d) of
        Inl err \<Rightarrow> Inl (Errorf ''expanding `identity`: %+v'' [] (Some err))
      | Inr expandedIdentity \<Rightarrow>
          (let expandedEncryption = expandMachineLearningWorkspaceEncryption (ml_encryption d);
               networkAccessBehindVnetEnabled =
                 (case ml_public_network_access_enabled d of Some v \<Rightarrow> v | None \<Rightarrow> False);
               serverlessCompute =
                 expandMachineLearningWorkspaceServerlessCompute (ml_serverless_compute d);
               featureStore = expandMachineLearningWorkspaceFeatureStore (ml_feature_store d);
               properties =
                 \<lparr>ApplicationInsights = Some (ml_application_insights_id d),
                  Encryption = expandedEncryption,
                  KeyVault = Some (ml_key_vault_id d),
                  ManagedNetwork =
                    expandMachineLearningWorkspaceManagedNetwork (ml_managed_network d),
                  PublicNetworkAccess =
                    Some (if networkAccessBehindVnetEnabled then PublicNetworkAccessEnabled
                          else PublicNetworkAccessDisabled),
                  StorageAccount = Some (ml_storage_account_id d),
                  V1LegacyMode = Some (ml_v1_legacy_mode_enabled d),
                  ServerlessComputeSettings = serverlessCompute,
                  Description =
                    (if ml_description d \<noteq> [] then Some (ml_description d) else None),
                  FriendlyName =
                    (if ml_friendly_name d \<noteq> [] then Some (ml_friendly_name d) else None),
                  ContainerRegistry =
                    (if ml_container_registry_id d \<noteq> []
                     then Some (ml_container_registry_id d) else None),
                  HbiWorkspace =
                    (if ml_high_business_impact d then Some (ml_high_business_impact d) else None),
                  ImageBuildCompute =
                    (if ml_image_build_compute_name d \<noteq> []
                     then Some (ml_image_build_compute_name d) else None),
                  PrimaryUserAssignedIdentity =
                    (if ml_primary_user_assigned_identity d \<noteq> []
                     then Some (ml_primary_user_assigned_identity d) else None),
                  FeatureStoreSettings = None\<rparr>;
               workspace =
                 \<lparr>Workspace_Name = Some (ws_WorkspaceName wid),
                  Workspace_Location = Some (ml_NormalizeLocation meta (ml_location d)),
                  Workspace_Tags = tags_Expand meta (ml_tags d),
                  Workspace_Sku = Some \<lparr>sku_Name = ml_sku_name d, sku_Tier = Some (ml_sku_name d)\<rparr>,
                  Workspace_Kind = Some (ml_kind d),
                  Workspace_Identity = Some expandedIdentity,
                  Workspace_Properties = Some properties\<rparr>
           in
             if (case serverlessCompute of
                   None \<Rightarrow> False
                 | Some sc \<Rightarrow>
                     ServerlessComputeNoPublicIP sc = Some True
                     \<and> ServerlessComputeCustomSubnet sc = None
                     \<and> \<not> networkAccessBehindVnetEnabled)
             then Inl (Errorf
               ''`public_ip_enabled` must be set to  `true` if `subnet_id` is not set and `public_network_access_enabled` is `false`''
               [] None)
             else if (case serverlessCompute of
                        None \<Rightarrow> False
                      | Some sc \<Rightarrow>
                          ServerlessComputeCustomSubnet sc = None
                          \<and> fst (ml_serverless_public_ip_enabled_change d)
                          \<and> \<not> snd (ml_serverless_public_ip_enabled_change d))
             then Inl (Errorf
               '' Not supported to update `public_ip_enabled` from `true` to `false` when `subnet_id` is null or empty''
               [] None)
             else if EqualFold (ml_kind d) ''Default'' then
               (if featureStore \<noteq> None
                then Inl (Errorf ''`feature_store` can only be set when `kind` is `FeatureStore`''
                            [] None)
                else Inr workspace)
             else
               (if featureStore = None
                then Inl (Errorf ''`feature_store` can not be empty when `kind` is `FeatureStore`''
                            [] None)
                else Inr (workspace\<lparr>Workspace_Properties :=
                            Some (properties\<lparr>FeatureStoreSettings := featureStore\<rparr>)\<rparr>))))"

definition resourceMachineLearningWorkspaceCreateOrUpdate ::
    "MLMeta \<Rightarrow> MLData \<Rightarrow> MLWorld \<Rightarrow> error option \<times> MLData \<times> MLWorld" where
  "resourceMachineLearningWorkspaceCreateOrUpdate meta d w =
     (let wid = NewWorkspaceID (ml_SubscriptionId meta) (ml_resource_group_name d) (ml_name d) in
      case (if ml_IsNewResource d then
              (case ml_client_Get wid w of
                 ((existing, err), w1) \<Rightarrow>
                   if err \<noteq> None \<and> \<not> WasNotFound (wsget_HttpResponse existing) then
                     (Some (Errorf ''checking for presence of existing %s: %+v''
                              [ArgWorkspaceId wid] err), w1)
                   else if \<not> WasNotFound (wsget_HttpResponse existing) then
                     (Some (ImportAsExistsError ''azurerm_machine_learning_workspace''
                              (WorkspaceID_ID meta wid)), w1)
                   else (None, w1))
            else (None, w)) of
        (Some err, w1) \<Rightarrow> (Some err, d, w1)
      | (None, w1) \<Rightarrow>
          (case build_workspace meta d wid of
             Inl err \<Rightarrow> (Some err, d, w1)
           | Inr workspace \<Rightarrow>
               (case ml_client_CreateOrUpdate wid workspace w1 of
                  ((future, Some err), w2) \<Rightarrow>
                     (Some (Errorf ''creating/updating %s: %+v'' [ArgWorkspaceId wid] (Some err)),
                      d, w2)
                | ((future, None), w2) \<Rightarrow>
                     (case PollUntilDone future w2 of
                        (Some err, w3) \<Rightarrow>
                           (Some (Errorf ''waiting for the creation of %s: %+v''
                                    [ArgWorkspaceId wid] (Some err)), d, w3)
                      | (None, w3) \<Rightarrow>
                           resourceMachineLearningWorkspaceRead meta
                             (d\<lparr>ml_Id := WorkspaceID_ID meta wid\<rparr>) w3))))"

section \<open>Auxiliary definitions for the proofs\<close>

text \<open>What one existence probe reports, as a function of the answer to its \<open>Get\<close>.\<close>

definition probe_outcome ::
    "NamespaceId \<Rightarrow> GetOperationResponse \<times> error option \<Rightarrow> RefreshResult" where
  "probe_outcome nid r =
     (case snd r of
        Some e \<Rightarrow>
          if WasNotFound (get_HttpResponse (fst r)) then (Some (fst r), ''Deleted'', None)
          else (None, ''Error'',
                Some (Errorf ''retrieving %s: %+v'' [ArgNamespaceId nid] (Some e)))
      | None \<Rightarrow> (Some (fst r), ''Pending'', None))"

text \<open>The result of the poll when the answer \<open>r\<close> (a failed \<open>Get\<close>) ends it.\<close>

definition terminal_result ::
    "NamespaceId \<Rightarrow> GetOperationResponse \<times> error option \<Rightarrow>
       GetOperationResponse option \<times> error option" where
  "terminal_result nid r =
     (if WasNotFound (get_HttpResponse (fst r)) then (Some (fst r), None)
      else (None, Some (Errorf ''retrieving %s: %+v'' [ArgNamespaceId nid] (snd r))))"

text \<open>The log entries of \<open>n\<close> probes sent every \<open>m\<close> seconds from time \<open>t0\<close> on.\<close>

definition tick_calls :: "NamespaceId \<Rightarrow> nat \<Rightarrow> nat \<Rightarrow> nat \<Rightarrow> (nat \<times> RelayCall) list" where
  "tick_calls nid t0 m n = map (\<lambda>i. (t0 + i * m, GetCall nid)) [0..<n]"

text \<open>The error \<open>resourceRelayNamespaceDelete\<close> returns for a result of the poll.\<close>

definition delete_result ::
    "NamespaceId \<Rightarrow> GetOperationResponse option \<times> error option \<Rightarrow> error option" where
  "delete_result nid r =
     (case snd r of
        Some err \<Rightarrow> Some (Errorf ''waiting for deletion of %s: %+v'' [ArgNamespaceId nid] (Some err))
      | None \<Rightarrow> None)"

section \<open>Sample inputs\<close>

text \<open>
  Concrete inputs on which the theorems below are exercised: an id parser that accepts one
  stored id, a resource data, three answers of \<open>Get\<close> (the resource is there, a 404, a
  server error) and a world that answers from a script.
\<close>

definition example_id :: NamespaceId where
  "example_id = \<lparr>ns_SubscriptionId = ''sub'', ns_ResourceGroup = ''rg'', ns_Name = ''relay1''\<rparr>"

definition example_meta :: RelayMeta where
  "example_meta =
     \<lparr>SubscriptionId = ''sub'',
      ParseNamespaceID = (\<lambda>s. if s = ''/sub/rg/relay1'' then Inr example_id
                               else Inl (ClientError ''parsing the id'')),
      NamespaceID_ID = (\<lambda>n. ''/'' @ ns_SubscriptionId n @ ''/'' @ ns_ResourceGroup n @ ''/'' @ ns_Name n),
      NormalizeLocation = (\<lambda>s. s),
      location_Normalize = (\<lambda>s. s),
      expandTags = Some,
      flattenTags = (\<lambda>t. case t of None \<Rightarrow> [] | Some x \<Rightarrow> x),
      tags_FlattenAndSet = (\<lambda>t d. (None, d\<lparr>d_tags := t\<rparr>))\<rparr>"

definition example_data :: "string \<Rightarrow> bool \<Rightarrow> nat \<Rightarrow> RelayData" where
  "example_data stored new timeout =
     \<lparr>d_Id = stored, d_IsNewResource = new, d_TimeoutDelete = timeout,
      d_name = ''relay1'', d_location = ''westeurope'', d_resource_group_name = ''rg'',
      d_sku_name = ''Standard'', d_metric_id = [], d_primary_connection_string = [],
      d_secondary_connection_string = [], d_primary_key = [], d_secondary_key = [],
      d_tags = []\<rparr>"

definition found :: "GetOperationResponse \<times> error option" where
  "found = (\<lparr>get_HttpResponse = Some 200, get_Model = None\<rparr>, None)"

definition not_found :: "GetOperationResponse \<times> error option" where
  "not_found = (\<lparr>get_HttpResponse = Some 404, get_Model = None\<rparr>, Some (ClientError ''404''))"

definition failed :: "GetOperationResponse \<times> error option" where
  "failed = (\<lparr>get_HttpResponse = Some 500, get_Model = None\<rparr>, Some (ClientError ''500''))"

definition always :: "'a \<Rightarrow> nat \<Rightarrow> 'a" where
  "always r n = r"

definition example_world ::
    "(nat \<Rightarrow> GetOperationResponse \<times> error option) \<Rightarrow> error option \<Rightarrow> RelayWorld" where
  "example_world script delete_error =
     \<lparr>get_responses = script,
      delete_response = (\<lparr>del_HttpResponse = Some 202, del_PollerDone = False\<rparr>, delete_error),
      create_response = None,
      listkeys_response = (\<lparr>keys_HttpResponse = Some 200, keys_Model = None\<rparr>, None),
      clock = 0, calls = []\<rparr>"

definition example_workspace_id :: WorkspaceId where
  "example_workspace_id =
     \<lparr>ws_SubscriptionId = ''sub'', ws_ResourceGroupName = ''rg'', ws_WorkspaceName = ''ws1''\<rparr>"

definition example_ml_meta :: MLMeta where
  "example_ml_meta =
     \<lparr>ml_SubscriptionId = ''sub'',
      ParseWorkspaceID = (\<lambda>s. if s = ''/sub/rg/ws1'' then Inr example_workspace_id
                               else Inl (ClientError ''parsing the id'')),
      WorkspaceID_ID = (\<lambda>i. ''/'' @ ws_SubscriptionId i @ ''/'' @ ws_ResourceGroupName i
                               @ ''/'' @ ws_WorkspaceName i),
      ml_NormalizeLocation = (\<lambda>s. s),
      tags_Expand = Some,
      ExpandSystemAndUserAssignedMap =
        (\<lambda>input. Inr \<lparr>sid_Type = ''SystemAssigned'', sid_IdentityIds = []\<rparr>),
      read_into_state = (\<lambda>wid resp d. (None, d))\<rparr>"

definition example_ml_data ::
    "string \<Rightarrow> bool \<Rightarrow> string \<Rightarrow> FeatureStoreBlock option list \<Rightarrow> MLData" where
  "example_ml_data stored new kind feature_store =
     \<lparr>ml_Id = stored, ml_IsNewResource = new, ml_name = ''ws1'',
      ml_resource_group_name = ''rg'', ml_location = ''westeurope'', ml_tags = [],
      ml_sku_name = ''Basic'', ml_kind = kind, ml_identity = [], ml_encryption = [],
      ml_public_network_access_enabled = None, ml_application_insights_id = ''ai'',
      ml_key_vault_id = ''kv'', ml_managed_network = [], ml_storage_account_id = ''sa'',
      ml_v1_legacy_mode_enabled = False, ml_serverless_compute = [],
      ml_serverless_public_ip_enabled_change = (False, False), ml_description = [],
      ml_friendly_name = [], ml_container_registry_id = [], ml_high_business_impact = False,
      ml_image_build_compute_name = [], ml_primary_user_assigned_identity = [],
      ml_feature_store = feature_store\<rparr>"

definition ml_found :: "WorkspaceGetResponse \<times> error option" where
  "ml_found = (\<lparr>wsget_HttpResponse = Some 200, wsget_Model = None\<rparr>, None)"

definition ml_not_found :: "WorkspaceGetResponse \<times> error option" where
  "ml_not_found =
     (\<lparr>wsget_HttpResponse = Some 404, wsget_Model = None\<rparr>, Some (ClientError ''404''))"

definition ml_failed :: "WorkspaceGetResponse \<times> error option" where
  "ml_failed =
     (\<lparr>wsget_HttpResponse = Some 500, wsget_Model = None\<rparr>, Some (ClientError ''500''))"

definition example_ml_world :: "(nat \<Rightarrow> WorkspaceGetResponse \<times> error option) \<Rightarrow> MLWorld" where
  "example_ml_world script =
     \<lparr>ml_get_responses = script, ml_create_response = (None, None), ml_calls = []\<rparr>"

section \<open>The delete-confirmation poll, run by run\<close>

lemma refresh_eq:
  "relayNamespaceDeleteRefreshFunc nid w =
     (probe_outcome nid (get_responses w (length (probe_times (calls w)))), record_call (GetCall nid) w)"
  by (simp add: relayNamespaceDeleteRefreshFunc_def client_Get_def probe_outcome_def
      split: prod.splits option.splits)

lemma record_call_simps [simp]:
  "clock (record_call c w) = clock w"
  "calls (record_call c w) = calls w @ [(clock w, c)]"
  "get_responses (record_call c w) = get_responses w"
  "delete_response (record_call c w) = delete_response w"
  by (simp_all add: record_call_def)

lemma sleep_until_simps [simp]:
  "clock (sleep_until t w) = t"
  "calls (sleep_until t w) = calls w"
  "get_responses (sleep_until t w) = get_responses w"
  by (simp_all add: sleep_until_def)

lemma probe_times_append [simp]: "probe_times (xs @ ys) = probe_times xs @ probe_times ys"
  by (simp add: probe_times_def)

lemma probe_times_simps [simp]:
  "probe_times [] = []"
  "probe_times ((t, GetCall nid) # cs) = t # probe_times cs"
  "probe_times ((t, DeleteCall nid) # cs) = probe_times cs"
  by (simp_all add: probe_times_def)

lemma tick_calls_Suc:
  "tick_calls nid t m (Suc n) = (t, GetCall nid) # tick_calls nid (t + m) m n"
proof -
  have "[0..<Suc n] = 0 # map Suc [0..<n]"
    by (metis map_Suc_upt upt_conv_Cons zero_less_Suc)
  then show ?thesis
    unfolding tick_calls_def by (simp add: o_def algebra_simps del: upt_Suc)
qed

lemma wait_loop_run:
  assumes conf: "Refresh conf = relayNamespaceDeleteRefreshFunc nid" "Target conf = [''Deleted'']"
    and m: "0 < MinTimeout conf"
  shows "clock w \<le> dl \<Longrightarrow>
     \<exists>n r w'. wait_loop conf dl w = Some (r, w')
       \<and> calls w' = calls w @ tick_calls nid (clock w) (MinTimeout conf) n
       \<and> get_responses w' = get_responses w
       \<and> (\<forall>i. Suc i < n \<longrightarrow> snd (get_responses w (length (probe_times (calls w)) + i)) = None)
       \<and> (0 < n \<longrightarrow> clock w + (n - 1) * MinTimeout conf < dl)
       \<and> ((r = (None, Some TimeoutError) \<and> clock w' = dl \<and> dl \<le> clock w + n * MinTimeout conf
            \<and> (\<forall>i < n. snd (get_responses w (length (probe_times (calls w)) + i)) = None))
          \<or> (0 < n \<and> snd (get_responses w (length (probe_times (calls w)) + (n - 1))) \<noteq> None
              \<and> r = terminal_result nid (get_responses w (length (probe_times (calls w)) + (n - 1)))
              \<and> clock w' = clock w + (n - 1) * MinTimeout conf))"
proof (induction "dl - clock w" arbitrary: w rule: less_induct)
  case less
  let ?m = "MinTimeout conf"
  let ?g = "length (probe_times (calls w))"
  show ?case
  proof (cases "dl \<le> clock w")
    case True
    then have "wait_loop conf dl w = Some ((None, Some TimeoutError), w)"
      by (subst wait_loop.simps) simp
    then show ?thesis using True less.prems
      by (intro exI[of _ 0] exI[of _ "(None, Some TimeoutError)"] exI[of _ w]) (simp add: tick_calls_def)
  next
    case False
    let ?r = "get_responses w ?g"
    let ?w1 = "record_call (GetCall nid) w"
    show ?thesis
    proof (cases "snd ?r")
      case (Some e)
      have "wait_loop conf dl w = Some (terminal_result nid ?r, ?w1)"
        using False Some
        by (subst wait_loop.simps) (simp add: conf refresh_eq probe_outcome_def terminal_result_def)
      then show ?thesis using False Some
        by (intro exI[of _ 1] exI[of _ "terminal_result nid ?r"] exI[of _ ?w1]) (simp add: tick_calls_def)
    next
      case None
      let ?w2 = "sleep_until (min (clock ?w1 + ?m) dl) ?w1"
      have step: "wait_loop conf dl w = wait_loop conf dl ?w2"
        using False None
        by (subst wait_loop.simps) (simp add: conf refresh_eq probe_outcome_def)
      have c2: "clock ?w2 = min (clock w + ?m) dl" by simp
      have "dl - clock ?w2 < dl - clock w" using False m by (auto simp: min_def)
      moreover have "clock ?w2 \<le> dl" by simp
      ultimately obtain n r w' where
        run: "wait_loop conf dl ?w2 = Some (r, w')"
        and cs: "calls w' = calls ?w2 @ tick_calls nid (clock ?w2) ?m n"
        and gr: "get_responses w' = get_responses ?w2"
        and pend: "\<forall>i. Suc i < n \<longrightarrow> snd (get_responses ?w2 (length (probe_times (calls ?w2)) + i)) = None"
        and tm: "0 < n \<longrightarrow> clock ?w2 + (n - 1) * ?m < dl"
        and fin: "(r = (None, Some TimeoutError) \<and> clock w' = dl \<and> dl \<le> clock ?w2 + n * ?m
            \<and> (\<forall>i < n. snd (get_responses ?w2 (length (probe_times (calls ?w2)) + i)) = None))
          \<or> (0 < n \<and> snd (get_responses ?w2 (length (probe_times (calls ?w2)) + (n - 1))) \<noteq> None
              \<and> r = terminal_result nid (get_responses ?w2 (length (probe_times (calls ?w2)) + (n - 1)))
              \<and> clock w' = clock ?w2 + (n - 1) * ?m)"
        using less.hyps[of ?w2] by blast
      have g2: "length (probe_times (calls ?w2)) = Suc ?g" by simp
      have clk: "0 < n \<Longrightarrow> clock ?w2 = clock w + ?m"
        using tm c2 by (simp add: min_def split: if_splits)
      have A: "calls w' = calls w @ tick_calls nid (clock w) ?m (Suc n)"
      proof (cases "n = 0")
        case True then show ?thesis using cs by (simp add: tick_calls_def)
      next
        case False
        then have "clock ?w2 = clock w + ?m" using clk by simp
        then show ?thesis using cs by (simp add: tick_calls_Suc)
      qed
      have B: "\<forall>i. Suc i < Suc n \<longrightarrow> snd (get_responses w (?g + i)) = None"
      proof (intro allI impI)
        fix i assume "Suc i < Suc n"
        show "snd (get_responses w (?g + i)) = None"
        proof (cases i)
          case 0 then show ?thesis using None by simp
        next
          case (Suc i')
          then have "Suc i' < n" using \<open>Suc i < Suc n\<close> by simp
          then show ?thesis using pend Suc by (simp add: g2 del: record_call_simps sleep_until_simps) (simp)
        qed
      qed
      have gr2: "get_responses ?w2 = get_responses w" by simp
      have C: "clock w + (Suc n - 1) * ?m < dl"
      proof (cases "n = 0")
        case True then show ?thesis using False by simp
      next
        case False
        then obtain n' where n': "n = Suc n'" by (cases n) auto
        have "clock ?w2 = clock w + ?m" using clk False by simp
        then show ?thesis using tm n' by (simp add: algebra_simps)
      qed
      have idx: "\<And>i. get_responses ?w2 (length (probe_times (calls ?w2)) + i) = get_responses w (?g + Suc i)"
        by simp
      have D: "(r = (None, Some TimeoutError) \<and> clock w' = dl \<and> dl \<le> clock w + Suc n * ?m
            \<and> (\<forall>i < Suc n. snd (get_responses w (?g + i)) = None))
          \<or> (0 < Suc n \<and> snd (get_responses w (?g + (Suc n - 1))) \<noteq> None
              \<and> r = terminal_result nid (get_responses w (?g + (Suc n - 1)))
              \<and> clock w' = clock w + (Suc n - 1) * ?m)"
        using fin
      proof
        assume t: "r = (None, Some TimeoutError) \<and> clock w' = dl \<and> dl \<le> clock ?w2 + n * ?m
            \<and> (\<forall>i < n. snd (get_responses ?w2 (length (probe_times (calls ?w2)) + i)) = None)"
        then have p: "\<forall>i < n. snd (get_responses w (?g + Suc i)) = None"
          unfolding idx by blast
        have "\<forall>i < Suc n. snd (get_responses w (?g + i)) = None"
        proof (intro allI impI)
          fix i assume "i < Suc n"
          then show "snd (get_responses w (?g + i)) = None"
            using p None by (cases i) auto
        qed
        moreover have "dl \<le> clock w + Suc n * ?m"
          using t c2 by (simp add: min_def split: if_splits)
        ultimately show ?thesis using t by blast
      next
        assume t: "0 < n \<and> snd (get_responses ?w2 (length (probe_times (calls ?w2)) + (n - 1))) \<noteq> None
              \<and> r = terminal_result nid (get_responses ?w2 (length (probe_times (calls ?w2)) + (n - 1)))
              \<and> clock w' = clock ?w2 + (n - 1) * ?m"
        then obtain n' where n': "n = Suc n'" by (cases n) auto
        have e: "?g + Suc (n - 1) = ?g + (Suc n - 1)" using n' by simp
        have "clock ?w2 = clock w + ?m" using clk t by simp
        then have "clock w' = clock w + (Suc n - 1) * ?m" using t n' by (simp add: algebra_simps)
        then show ?thesis using t unfolding idx e by simp
      qed
      have E: "get_responses w' = get_responses w" using gr by simp
      have F: "wait_loop conf dl w = Some (r, w')" using step run by simp
      show ?thesis
        using A B C D E F by (intro exI[of _ "Suc n"] exI[of _ r] exI[of _ w']) blast
    qed
  qed
qed


lemma probe_times_tick_calls:
  "probe_times (tick_calls nid t m n) = map (\<lambda>i. t + i * m) [0..<n]"
  by (simp add: probe_times_def tick_calls_def o_def)

lemma delete_parse_fail:
  "ParseNamespaceID meta (d_Id d) = Inl err \<Longrightarrow>
     resourceRelayNamespaceDelete meta d w = Some (Some err, w)"
  by (simp add: resourceRelayNamespaceDelete_def)

lemma delete_rejected:
  "ParseNamespaceID meta (d_Id d) = Inr nid \<Longrightarrow> snd (delete_response w) = Some err \<Longrightarrow>
     resourceRelayNamespaceDelete meta d w =
       Some (Some (Errorf ''deleting %s: %+v'' [ArgNamespaceId nid] (Some err)),
             record_call (DeleteCall nid) w)"
  by (cases "delete_response w") (simp add: resourceRelayNamespaceDelete_def client_Delete_def)

lemma delete_run:
  assumes p: "ParseNamespaceID meta (d_Id d) = Inr nid"
    and a: "snd (delete_response w) = None"
    and c: "calls w = []"
  shows "\<exists>n r w'. resourceRelayNamespaceDelete meta d w = Some (delete_result nid r, w')
       \<and> calls w' = (clock w, DeleteCall nid) # tick_calls nid (clock w) 15 n
       \<and> (\<forall>i. Suc i < n \<longrightarrow> snd (get_responses w i) = None)
       \<and> (0 < n \<longrightarrow> (n - 1) * 15 < d_TimeoutDelete d)
       \<and> ((r = (None, Some TimeoutError) \<and> clock w' = clock w + d_TimeoutDelete d
             \<and> d_TimeoutDelete d \<le> n * 15 \<and> (\<forall>i < n. snd (get_responses w i) = None))
          \<or> (0 < n \<and> snd (get_responses w (n - 1)) \<noteq> None
              \<and> r = terminal_result nid (get_responses w (n - 1))
              \<and> clock w' = clock w + (n - 1) * 15))"
proof -
  let ?conf = "\<lparr>Pending = [''Pending''], Target = [''Deleted''],
                Refresh = relayNamespaceDeleteRefreshFunc nid,
                MinTimeout = 15, Timeout = d_TimeoutDelete d\<rparr>"
  let ?w1 = "record_call (DeleteCall nid) w"
  let ?dl = "clock ?w1 + d_TimeoutDelete d"
  have g: "length (probe_times (calls ?w1)) = 0" using c by simp
  have "clock ?w1 \<le> ?dl" by simp
  from wait_loop_run[of ?conf nid ?w1 ?dl, OF _ _ _ this]
  obtain n r w' where
    run: "wait_loop ?conf ?dl ?w1 = Some (r, w')"
    and cs: "calls w' = calls ?w1 @ tick_calls nid (clock ?w1) 15 n"
    and pend: "\<forall>i. Suc i < n \<longrightarrow> snd (get_responses ?w1 (length (probe_times (calls ?w1)) + i)) = None"
    and tm: "0 < n \<longrightarrow> clock ?w1 + (n - 1) * 15 < ?dl"
    and fin: "(r = (None, Some TimeoutError) \<and> clock w' = ?dl \<and> ?dl \<le> clock ?w1 + n * 15
            \<and> (\<forall>i < n. snd (get_responses ?w1 (length (probe_times (calls ?w1)) + i)) = None))
          \<or> (0 < n \<and> snd (get_responses ?w1 (length (probe_times (calls ?w1)) + (n - 1))) \<noteq> None
              \<and> r = terminal_result nid (get_responses ?w1 (length (probe_times (calls ?w1)) + (n - 1)))
              \<and> clock w' = clock ?w1 + (n - 1) * 15)"
    by auto
  have "resourceRelayNamespaceDelete meta d w = Some (delete_result nid r, w')"
    using p a run
    by (cases "delete_response w"; cases r; cases "snd r")
       (simp_all add: resourceRelayNamespaceDelete_def client_Delete_def WaitForStateContext_def
        delete_result_def)
  moreover have "calls w' = (clock w, DeleteCall nid) # tick_calls nid (clock w) 15 n"
    using cs c by simp
  moreover have "\<forall>i. Suc i < n \<longrightarrow> snd (get_responses w i) = None"
    using pend unfolding g by simp
  moreover have "0 < n \<longrightarrow> (n - 1) * 15 < d_TimeoutDelete d"
    using tm by simp
  moreover have "(r = (None, Some TimeoutError) \<and> clock w' = clock w + d_TimeoutDelete d
             \<and> d_TimeoutDelete d \<le> n * 15 \<and> (\<forall>i < n. snd (get_responses w i) = None))
          \<or> (0 < n \<and> snd (get_responses w (n - 1)) \<noteq> None
              \<and> r = terminal_result nid (get_responses w (n - 1))
              \<and> clock w' = clock w + (n - 1) * 15)"
    using fin unfolding g by simp
  ultimately show ?thesis by blast
qed

text \<open>The run does not read the response or the poller of the delete request.\<close>

lemma refresh_delete_response:
  "relayNamespaceDeleteRefreshFunc nid (w\<lparr>delete_response := x\<rparr>) =
     (fst (relayNamespaceDeleteRefreshFunc nid w),
      (snd (relayNamespaceDeleteRefreshFunc nid w))\<lparr>delete_response := x\<rparr>)"
  by (simp add: refresh_eq record_call_def)

lemma wait_loop_delete_response:
  assumes conf: "Refresh conf = relayNamespaceDeleteRefreshFunc nid"
    and m: "0 < MinTimeout conf"
  shows "wait_loop conf dl (w\<lparr>delete_response := x\<rparr>) =
           map_option (\<lambda>rw. (fst rw, (snd rw)\<lparr>delete_response := x\<rparr>)) (wait_loop conf dl w)"
proof (induction "dl - clock w" arbitrary: w rule: less_induct)
  case less
  let ?u = "\<lambda>v::RelayWorld. v\<lparr>delete_response := x\<rparr>"
  show ?case
  proof (cases "dl \<le> clock w")
    case True
    then show ?thesis
      by (subst wait_loop.simps, subst (2) wait_loop.simps) simp
  next
    case False
    obtain res st err where o: "probe_outcome nid (get_responses w (length (probe_times (calls w)))) = (res, st, err)"
      by (cases "probe_outcome nid (get_responses w (length (probe_times (calls w))))") auto
    let ?w1 = "record_call (GetCall nid) w"
    let ?w2 = "sleep_until (min (clock ?w1 + MinTimeout conf) dl) ?w1"
    have r1: "Refresh conf w = ((res, st, err), ?w1)" using o by (simp add: conf refresh_eq)
    have r2: "Refresh conf (?u w) = ((res, st, err), ?u ?w1)"
      using o by (simp add: conf refresh_eq record_call_def)
    show ?thesis
    proof (cases "err = None \<and> st \<notin> set (Target conf)")
      case True
      have "dl - clock ?w2 < dl - clock w" using False m by (auto simp: min_def)
      from less.hyps[OF this]
      have ih: "wait_loop conf dl (?u ?w2) =
           map_option (\<lambda>rw. (fst rw, (snd rw)\<lparr>delete_response := x\<rparr>)) (wait_loop conf dl ?w2)" .
      have e: "sleep_until (min (clock (?u ?w1) + MinTimeout conf) dl) (?u ?w1) = ?u ?w2"
        by (simp add: sleep_until_def record_call_def)
      have "wait_loop conf dl (?u w) = wait_loop conf dl (?u ?w2)"
        using False True r2 e by (subst wait_loop.simps) simp
      moreover have "wait_loop conf dl w = wait_loop conf dl ?w2"
        using False True r1 by (subst wait_loop.simps) simp
      ultimately show ?thesis using ih by simp
    next
      case F2: False
      then show ?thesis using False r1 r2
        by (subst wait_loop.simps, subst (2) wait_loop.simps) (auto split: option.splits)
    qed
  qed
qed

lemma delete_accepted:
  assumes "ParseNamespaceID meta (d_Id d) = Inr nid" "snd (delete_response w) = None"
  shows "resourceRelayNamespaceDelete meta d w =
           map_option (\<lambda>rw. (delete_result nid (fst rw), snd rw))
             (wait_loop \<lparr>Pending = [''Pending''], Target = [''Deleted''],
                         Refresh = relayNamespaceDeleteRefreshFunc nid,
                         MinTimeout = 15, Timeout = d_TimeoutDelete d\<rparr>
                (clock w + d_TimeoutDelete d) (record_call (DeleteCall nid) w))"
  using assms
  by (cases "delete_response w")
     (auto simp: resourceRelayNamespaceDelete_def client_Delete_def WaitForStateContext_def
        delete_result_def split: option.splits)

lemma delete_ignores_delete_handle:
  assumes x: "snd x = snd (delete_response w)"
  shows "resourceRelayNamespaceDelete meta d (w\<lparr>delete_response := x\<rparr>) =
           map_option (\<lambda>rw. (fst rw, (snd rw)\<lparr>delete_response := x\<rparr>))
             (resourceRelayNamespaceDelete meta d w)"
proof (cases "ParseNamespaceID meta (d_Id d)")
  case (Inl err)
  then show ?thesis by (simp add: delete_parse_fail)
next
  case (Inr nid)
  let ?conf = "\<lparr>Pending = [''Pending''], Target = [''Deleted''],
                Refresh = relayNamespaceDeleteRefreshFunc nid,
                MinTimeout = 15, Timeout = d_TimeoutDelete d\<rparr>"
  let ?u = "\<lambda>v::RelayWorld. v\<lparr>delete_response := x\<rparr>"
  have rc: "record_call (DeleteCall nid) (?u w) = ?u (record_call (DeleteCall nid) w)"
    by (simp add: record_call_def)
  show ?thesis
  proof (cases "snd (delete_response w)")
    case (Some err)
    then have "snd (delete_response (?u w)) = Some err" using x by simp
    from delete_rejected[OF Inr this] delete_rejected[OF Inr Some]
    show ?thesis by (simp add: rc)
  next
    case None
    then have n2: "snd (delete_response (?u w)) = None" using x by simp
    have wl: "wait_loop ?conf (clock w + d_TimeoutDelete d) (?u (record_call (DeleteCall nid) w)) =
           map_option (\<lambda>rw. (fst rw, ?u (snd rw)))
             (wait_loop ?conf (clock w + d_TimeoutDelete d) (record_call (DeleteCall nid) w))"
      by (rule wait_loop_delete_response) simp_all
    have "resourceRelayNamespaceDelete meta d (?u w) =
            map_option (\<lambda>rw. (delete_result nid (fst rw), snd rw))
              (wait_loop ?conf (clock w + d_TimeoutDelete d) (?u (record_call (DeleteCall nid) w)))"
      using delete_accepted[OF Inr n2] by (simp add: rc)
    then show ?thesis
      unfolding wl delete_accepted[OF Inr None]
      by (simp add: option.map_comp o_def)
  qed
qed

section \<open>The workspace create, request by request\<close>

lemma build_workspace_mismatch:
  assumes "(EqualFold (ml_kind d) ''Default''
              \<and> expandMachineLearningWorkspaceFeatureStore (ml_feature_store d) \<noteq> None)
           \<or> (\<not> EqualFold (ml_kind d) ''Default''
              \<and> expandMachineLearningWorkspaceFeatureStore (ml_feature_store d) = None)"
  shows "\<exists>err. build_workspace meta d wid = Inl err"
  using assms
  by (cases "expandMachineLearningWorkspaceIdentity meta (ml_identity d)")
     (auto simp: build_workspace_def Let_def)

lemma build_workspace_feature_store:
  assumes "build_workspace meta d wid = Inr body" "\<not> EqualFold (ml_kind d) ''Default''"
  shows "\<exists>props. Workspace_Properties body = Some props
           \<and> FeatureStoreSettings props
               = expandMachineLearningWorkspaceFeatureStore (ml_feature_store d)
           \<and> expandMachineLearningWorkspaceFeatureStore (ml_feature_store d) \<noteq> None"
  using assms
  by (cases "expandMachineLearningWorkspaceIdentity meta (ml_identity d)")
     (auto simp: build_workspace_def Let_def split: if_splits)

lemma ml_read_calls:
  "ml_calls (snd (snd (resourceMachineLearningWorkspaceRead meta d w))) =
     ml_calls w @ (case ParseWorkspaceID meta (ml_Id d) of Inl _ \<Rightarrow> [] | Inr wid \<Rightarrow> [MLGetCall wid])"
  by (auto simp: resourceMachineLearningWorkspaceRead_def ml_client_Get_def
      split: sum.splits prod.splits option.splits)


lemma ml_create_log:
  fixes meta d w
  defines "wid \<equiv> NewWorkspaceID (ml_SubscriptionId meta) (ml_resource_group_name d) (ml_name d)"
  defines "blocked \<equiv> ml_IsNewResource d \<and>
     \<not> WasNotFound (wsget_HttpResponse
           (fst (ml_get_responses w (length (filter is_MLGetCall (ml_calls w))))))"
  shows "\<exists>r d' w' pre post.
       resourceMachineLearningWorkspaceCreateOrUpdate meta d w = (r, d', w')
       \<and> ml_calls w' = ml_calls w @ pre @ post
       \<and> (\<forall>c \<in> set pre. is_MLGetCall c)
       \<and> ((post = [] \<and> r \<noteq> None \<and> d' = d
             \<and> (blocked \<or> (\<exists>err. build_workspace meta d wid = Inl err)))
          \<or> (\<not> blocked
              \<and> (\<exists>body rest. build_workspace meta d wid = Inr body
                    \<and> post = MLCreateOrUpdateCall wid body # rest
                    \<and> (\<forall>c \<in> set rest. \<not> is_MLCreateOrUpdateCall c))))"
proof -
  obtain existing err where g: "ml_get_responses w (length (filter is_MLGetCall (ml_calls w))) = (existing, err)"
    by (cases "ml_get_responses w (length (filter is_MLGetCall (ml_calls w)))") auto
  let ?w1 = "if ml_IsNewResource d then w\<lparr>ml_calls := ml_calls w @ [MLGetCall wid]\<rparr> else w"
  let ?pre = "if ml_IsNewResource d then [MLGetCall wid] else []"
  show ?thesis
  proof (cases blocked)
    case True
    then have "resourceMachineLearningWorkspaceCreateOrUpdate meta d w =
        (Some (if err = None
                  then ImportAsExistsError ''azurerm_machine_learning_workspace'' (WorkspaceID_ID meta wid)
                  else Errorf ''checking for presence of existing %s: %+v'' [ArgWorkspaceId wid] err),
         d, w\<lparr>ml_calls := ml_calls w @ [MLGetCall wid]\<rparr>)"
      using g unfolding blocked_def wid_def
      by (simp add: resourceMachineLearningWorkspaceCreateOrUpdate_def ml_client_Get_def Let_def)
    then show ?thesis using True
      by (intro exI[of _ "Some (if err = None
                  then ImportAsExistsError ''azurerm_machine_learning_workspace'' (WorkspaceID_ID meta wid)
                  else Errorf ''checking for presence of existing %s: %+v'' [ArgWorkspaceId wid] err)"]
            exI[of _ d] exI[of _ "w\<lparr>ml_calls := ml_calls w @ [MLGetCall wid]\<rparr>"]
            exI[of _ "[MLGetCall wid]"] exI[of _ "[]"]) simp
  next
    case False
    have step: "resourceMachineLearningWorkspaceCreateOrUpdate meta d w =
      (case build_workspace meta d wid of
             Inl err \<Rightarrow> (Some err, d, ?w1)
           | Inr workspace \<Rightarrow>
               (case ml_client_CreateOrUpdate wid workspace ?w1 of
                  ((future, Some err), w2) \<Rightarrow>
                     (Some (Errorf ''creating/updating %s: %+v'' [ArgWorkspaceId wid] (Some err)),
                      d, w2)
                | ((future, None), w2) \<Rightarrow>
                     (case PollUntilDone future w2 of
                        (Some err, w3) \<Rightarrow>
                           (Some (Errorf ''waiting for the creation of %s: %+v''
                                    [ArgWorkspaceId wid] (Some err)), d, w3)
                      | (None, w3) \<Rightarrow>
                           resourceMachineLearningWorkspaceRead meta
                             (d\<lparr>ml_Id := WorkspaceID_ID meta wid\<rparr>) w3)))"
      using False g unfolding blocked_def wid_def
      by (auto simp: resourceMachineLearningWorkspaceCreateOrUpdate_def ml_client_Get_def Let_def)
    have c1: "ml_calls ?w1 = ml_calls w @ ?pre" by simp
    show ?thesis
    proof (cases "build_workspace meta d wid")
      case (Inl e)
      then have "resourceMachineLearningWorkspaceCreateOrUpdate meta d w = (Some e, d, ?w1)"
        using step by simp
      then show ?thesis using Inl c1
        by (intro exI[of _ "Some e"] exI[of _ d] exI[of _ ?w1] exI[of _ ?pre] exI[of _ "[]"]) simp
    next
      case (Inr body)
      obtain r d' w' where run: "resourceMachineLearningWorkspaceCreateOrUpdate meta d w = (r, d', w')"
        by (cases "resourceMachineLearningWorkspaceCreateOrUpdate meta d w") auto
      have "\<exists>rest. ml_calls w' = ml_calls ?w1 @ MLCreateOrUpdateCall wid body # rest
                \<and> (\<forall>c \<in> set rest. \<not> is_MLCreateOrUpdateCall c)"
      proof (cases "ml_create_response w")
        case (Pair future cerr)
        show ?thesis
        proof (cases cerr)
          case (Some e)
          then show ?thesis using run step Inr Pair
            by (auto simp: ml_client_CreateOrUpdate_def)
        next
          case None
          show ?thesis
          proof (cases future)
            case (Some e)
            then show ?thesis using run step Inr Pair None
              by (auto simp: ml_client_CreateOrUpdate_def PollUntilDone_def)
          next
            case N2: None
            let ?w3 = "?w1\<lparr>ml_calls := ml_calls ?w1 @ [MLCreateOrUpdateCall wid body, MLPollUntilDoneCall]\<rparr>"
            have "resourceMachineLearningWorkspaceRead meta (d\<lparr>ml_Id := WorkspaceID_ID meta wid\<rparr>) ?w3
                    = (r, d', w')"
              using run step Inr Pair None N2
              by (auto simp: ml_client_CreateOrUpdate_def PollUntilDone_def)
            then have "ml_calls w' = ml_calls ?w3 @
                (case ParseWorkspaceID meta (ml_Id (d\<lparr>ml_Id := WorkspaceID_ID meta wid\<rparr>)) of
                   Inl _ \<Rightarrow> [] | Inr wid \<Rightarrow> [MLGetCall wid])"
              using ml_read_calls[of meta "d\<lparr>ml_Id := WorkspaceID_ID meta wid\<rparr>" ?w3] by simp
            then show ?thesis
              by (auto split: sum.splits)
          qed
        qed
      qed
      then obtain rest where rest: "ml_calls w' = ml_calls ?w1 @ MLCreateOrUpdateCall wid body # rest"
          "\<forall>c \<in> set rest. \<not> is_MLCreateOrUpdateCall c"
        by blast
      show ?thesis using run rest c1 False Inr
        by (intro exI[of _ r] exI[of _ d'] exI[of _ w'] exI[of _ ?pre]
              exI[of _ "MLCreateOrUpdateCall wid body # rest"]) simp
    qed
  qed
qed

section \<open>The claims\<close>

text \<open>
  C1 (idempotent delete). A \<open>Delete\<close> whose first existence probe is answered with a 404
  returns, and when that probe takes place it returns success after exactly one probe, sent
  at the time the call began. The probe takes place exactly when the stored id parses, the
  delete request is accepted and the timeout is positive.
\<close>

theorem delete_idempotent:
  assumes c: "calls w = []"
    and nf: "get_responses w 0 = (res, Some e)" "WasNotFound (get_HttpResponse res)"
  shows "\<exists>r w'. resourceRelayNamespaceDelete meta d w = Some (r, w')
       \<and> (probe_times (calls w') \<noteq> [] \<longleftrightarrow>
            (\<exists>nid. ParseNamespaceID meta (d_Id d) = Inr nid) \<and> snd (delete_response w) = None
            \<and> 0 < d_TimeoutDelete d)
       \<and> (probe_times (calls w') \<noteq> [] \<longrightarrow> r = None \<and> probe_times (calls w') = [clock w])"
proof (cases "ParseNamespaceID meta (d_Id d)")
  case (Inl err)
  then show ?thesis using c by (simp add: delete_parse_fail)
next
  case (Inr nid)
  show ?thesis
  proof (cases "snd (delete_response w)")
    case (Some err)
    then show ?thesis using Inr c by (simp add: delete_rejected)
  next
    case None
    from delete_run[OF Inr None c] obtain n r w' where
      run: "resourceRelayNamespaceDelete meta d w = Some (delete_result nid r, w')"
      and cs: "calls w' = (clock w, DeleteCall nid) # tick_calls nid (clock w) 15 n"
      and pend: "\<forall>i. Suc i < n \<longrightarrow> snd (get_responses w i) = None"
      and tm: "0 < n \<longrightarrow> (n - 1) * 15 < d_TimeoutDelete d"
      and fin: "(r = (None, Some TimeoutError) \<and> clock w' = clock w + d_TimeoutDelete d
             \<and> d_TimeoutDelete d \<le> n * 15 \<and> (\<forall>i < n. snd (get_responses w i) = None))
          \<or> (0 < n \<and> snd (get_responses w (n - 1)) \<noteq> None
              \<and> r = terminal_result nid (get_responses w (n - 1))
              \<and> clock w' = clock w + (n - 1) * 15)"
      by blast
    have P: "probe_times (calls w') = map (\<lambda>i. clock w + i * 15) [0..<n]"
      using cs by (simp add: probe_times_tick_calls)
    have n1: "n \<le> 1"
    proof (rule ccontr)
      assume "\<not> n \<le> 1"
      then have "Suc 0 < n" by simp
      then have "snd (get_responses w 0) = None" using pend by blast
      then show False using nf by simp
    qed
    have n0: "n = 0 \<longleftrightarrow> d_TimeoutDelete d = 0"
      using fin tm nf by (cases "n = 0") auto
    show ?thesis
    proof (cases "n = 0")
      case True
      then show ?thesis using run P n0 Inr None by simp
    next
      case False
      then have n: "n = 1" using n1 by simp
      then have "r = terminal_result nid (get_responses w 0)" using fin nf by auto
      then have "delete_result nid r = None"
        using nf by (simp add: terminal_result_def delete_result_def)
      then show ?thesis using run P n n0 Inr None by simp
    qed
  qed
qed


theorem delete_idempotent_witness:
  "calls (example_world (\<lambda>n. not_found) None) = []
   \<and> get_responses (example_world (\<lambda>n. not_found) None) 0
       = (\<lparr>get_HttpResponse = Some 404, get_Model = None\<rparr>, Some (ClientError ''404''))
   \<and> WasNotFound (get_HttpResponse \<lparr>get_HttpResponse = Some 404, get_Model = None\<rparr>)
   \<and> (\<exists>w'. resourceRelayNamespaceDelete example_meta (example_data ''/sub/rg/relay1'' False 3600)
              (example_world (\<lambda>n. not_found) None) = Some (None, w')
          \<and> probe_times (calls w') = [0])"
proof -
  let ?w = "example_world (\<lambda>n. not_found) None"
  let ?res = "\<lparr>get_HttpResponse = Some 404, get_Model = None\<rparr>"
  have h1: "calls ?w = []" by (simp add: example_world_def)
  have h2: "get_responses ?w 0 = (?res, Some (ClientError ''404''))"
    by (simp add: example_world_def not_found_def)
  have h3: "WasNotFound (get_HttpResponse ?res)" by (simp add: WasNotFound_def)
  from delete_idempotent[OF h1 h2 h3, of example_meta "example_data ''/sub/rg/relay1'' False 3600"]
  obtain r w' where
    "resourceRelayNamespaceDelete example_meta (example_data ''/sub/rg/relay1'' False 3600) ?w = Some (r, w')"
    "probe_times (calls w') \<noteq> [] \<longleftrightarrow>
            (\<exists>nid. ParseNamespaceID example_meta (d_Id (example_data ''/sub/rg/relay1'' False 3600)) = Inr nid)
            \<and> snd (delete_response ?w) = None
            \<and> 0 < d_TimeoutDelete (example_data ''/sub/rg/relay1'' False 3600)"
    "probe_times (calls w') \<noteq> [] \<longrightarrow> r = None \<and> probe_times (calls w') = [clock ?w]"
    by blast
  then have "resourceRelayNamespaceDelete example_meta (example_data ''/sub/rg/relay1'' False 3600) ?w = Some (None, w')
       \<and> probe_times (calls w') = [0]"
    by (simp add: example_meta_def example_data_def example_world_def)
  then show ?thesis using h1 h2 h3 by blast
qed

text \<open>
  C2 (error short-circuit). When the answer to probe \<open>j\<close> is a failure other than a 404 and
  that probe takes place in the run, it is the last probe of the run and \<open>Delete\<close> returns
  that failure, wrapped with the id by the refresh function and again by \<open>Delete\<close>. Probe
  \<open>j\<close> takes place exactly when the id parses, the delete request is accepted, the \<open>j\<close>
  earlier probes found the resource and \<open>j\<close> intervals of 15 seconds fit before the timeout.
\<close>

theorem delete_error_short_circuit:
  assumes c: "calls w = []"
    and er: "get_responses w j = (res, Some e)" "\<not> WasNotFound (get_HttpResponse res)"
  shows "\<exists>r w'. resourceRelayNamespaceDelete meta d w = Some (r, w')
       \<and> (j < length (probe_times (calls w')) \<longleftrightarrow>
            (\<exists>nid. ParseNamespaceID meta (d_Id d) = Inr nid) \<and> snd (delete_response w) = None
            \<and> (\<forall>i<j. snd (get_responses w i) = None) \<and> j * 15 < d_TimeoutDelete d)
       \<and> (j < length (probe_times (calls w')) \<longrightarrow>
            length (probe_times (calls w')) = Suc j
            \<and> (\<exists>nid. ParseNamespaceID meta (d_Id d) = Inr nid
                 \<and> r = Some (Errorf ''waiting for deletion of %s: %+v'' [ArgNamespaceId nid]
                          (Some (Errorf ''retrieving %s: %+v'' [ArgNamespaceId nid] (Some e))))))"
proof (cases "ParseNamespaceID meta (d_Id d)")
  case (Inl err)
  then show ?thesis using c by (simp add: delete_parse_fail)
next
  case (Inr nid)
  show ?thesis
  proof (cases "snd (delete_response w)")
    case (Some err)
    then show ?thesis using Inr c by (simp add: delete_rejected)
  next
    case None
    from delete_run[OF Inr None c] obtain n r w' where
      run: "resourceRelayNamespaceDelete meta d w = Some (delete_result nid r, w')"
      and cs: "calls w' = (clock w, DeleteCall nid) # tick_calls nid (clock w) 15 n"
      and pend: "\<forall>i. Suc i < n \<longrightarrow> snd (get_responses w i) = None"
      and tm: "0 < n \<longrightarrow> (n - 1) * 15 < d_TimeoutDelete d"
      and fin: "(r = (None, Some TimeoutError) \<and> clock w' = clock w + d_TimeoutDelete d
             \<and> d_TimeoutDelete d \<le> n * 15 \<and> (\<forall>i < n. snd (get_responses w i) = None))
          \<or> (0 < n \<and> snd (get_responses w (n - 1)) \<noteq> None
              \<and> r = terminal_result nid (get_responses w (n - 1))
              \<and> clock w' = clock w + (n - 1) * 15)"
      by blast
    have P: "length (probe_times (calls w')) = n"
      using cs by (simp add: probe_times_tick_calls)
    have notpend: "snd (get_responses w j) \<noteq> None" using er by simp
    have le: "n \<le> Suc j"
    proof (rule ccontr)
      assume "\<not> n \<le> Suc j"
      then have "Suc j < n" by simp
      then have "snd (get_responses w j) = None" using pend by simp
      then show False using notpend by simp
    qed
    have fwd: "j < n \<Longrightarrow> (\<forall>i<j. snd (get_responses w i) = None) \<and> j * 15 < d_TimeoutDelete d"
    proof -
      assume jn: "j < n"
      then have n: "n = Suc j" using le by simp
      have "\<forall>i<j. snd (get_responses w i) = None" using pend n by simp
      moreover have "j * 15 < d_TimeoutDelete d" using tm n by simp
      ultimately show ?thesis by blast
    qed
    have bwd: "(\<forall>i<j. snd (get_responses w i) = None) \<Longrightarrow> j * 15 < d_TimeoutDelete d \<Longrightarrow> j < n"
    proof (rule ccontr)
      assume pj: "\<forall>i<j. snd (get_responses w i) = None" and tj: "j * 15 < d_TimeoutDelete d"
        and "\<not> j < n"
      then have nj: "n \<le> j" by simp
      from fin show False
      proof
        assume "r = (None, Some TimeoutError) \<and> clock w' = clock w + d_TimeoutDelete d
             \<and> d_TimeoutDelete d \<le> n * 15 \<and> (\<forall>i < n. snd (get_responses w i) = None)"
        then have "d_TimeoutDelete d \<le> n * 15" by blast
        moreover have "n * 15 \<le> j * 15" using nj by simp
        ultimately show False using tj by simp
      next
        assume t: "0 < n \<and> snd (get_responses w (n - 1)) \<noteq> None
              \<and> r = terminal_result nid (get_responses w (n - 1))
              \<and> clock w' = clock w + (n - 1) * 15"
        then have "0 < n" by blast
        then have "n - 1 < j" using nj by arith
        then have "snd (get_responses w (n - 1)) = None" using pj by simp
        then show False using t by simp
      qed
    qed
    have res: "j < n \<Longrightarrow> delete_result nid r =
        Some (Errorf ''waiting for deletion of %s: %+v'' [ArgNamespaceId nid]
                (Some (Errorf ''retrieving %s: %+v'' [ArgNamespaceId nid] (Some e))))"
    proof -
      assume jn: "j < n"
      then have n: "n = Suc j" using le by simp
      have "r = terminal_result nid (get_responses w j)"
        using fin n notpend by auto
      then show ?thesis using er by (simp add: terminal_result_def delete_result_def)
    qed
    show ?thesis
      using run P Inr None le fwd bwd res
      by (intro exI[of _ "delete_result nid r"] exI[of _ w']) auto
  qed
qed

theorem delete_error_short_circuit_witness:
  "\<exists>w'. resourceRelayNamespaceDelete example_meta (example_data ''/sub/rg/relay1'' False 3600)
            (example_world (\<lambda>n. if n < 2 then found else failed) None)
          = Some (Some (Errorf ''waiting for deletion of %s: %+v'' [ArgNamespaceId example_id]
                     (Some (Errorf ''retrieving %s: %+v'' [ArgNamespaceId example_id]
                        (Some (ClientError ''500''))))), w')
        \<and> length (probe_times (calls w')) = 3"
proof -
  let ?w = "example_world (\<lambda>n. if n < 2 then found else failed) None"
  let ?d = "example_data ''/sub/rg/relay1'' False 3600"
  let ?res = "\<lparr>get_HttpResponse = Some 500, get_Model = None\<rparr>"
  have h1: "calls ?w = []" by (simp add: example_world_def)
  have h2: "get_responses ?w 2 = (?res, Some (ClientError ''500''))"
    by (simp add: example_world_def failed_def)
  have h3: "\<not> WasNotFound (get_HttpResponse ?res)" by (simp add: WasNotFound_def)
  have h4: "(\<exists>nid. ParseNamespaceID example_meta (d_Id ?d) = Inr nid) \<and> snd (delete_response ?w) = None
            \<and> (\<forall>i<2. snd (get_responses ?w i) = None) \<and> 2 * 15 < d_TimeoutDelete ?d"
    by (simp add: example_meta_def example_data_def example_world_def found_def)
  from delete_error_short_circuit[OF h1 h2 h3, of example_meta ?d] h4
  show ?thesis
    by (auto simp: example_meta_def example_data_def)
qed

text \<open>
  C3 (deadline respected). When every answer reports that the resource still exists,
  \<open>Delete\<close> returns (it does not hang), no later than the timeout plus one interval of 15
  seconds after the call began, and no probe is sent at or after the deadline. When the
  poll is entered (the id parses and the delete request is accepted) the error returned
  is the timeout error, wrapped with the id.
\<close>

theorem delete_deadline_respected:
  assumes c: "calls w = []"
    and ex: "\<forall>n. snd (get_responses w n) = None"
  shows "\<exists>r w'. resourceRelayNamespaceDelete meta d w = Some (r, w')
          \<and> clock w' \<le> clock w + d_TimeoutDelete d + 15
          \<and> (\<forall>t \<in> set (probe_times (calls w')). t < clock w + d_TimeoutDelete d)
          \<and> (\<forall>nid. ParseNamespaceID meta (d_Id d) = Inr nid \<and> snd (delete_response w) = None
                \<longrightarrow> r = Some (Errorf ''waiting for deletion of %s: %+v'' [ArgNamespaceId nid]
                               (Some TimeoutError)))"
proof (cases "ParseNamespaceID meta (d_Id d)")
  case (Inl err)
  then show ?thesis using c by (simp add: delete_parse_fail)
next
  case (Inr nid)
  show ?thesis
  proof (cases "snd (delete_response w)")
    case (Some err)
    then show ?thesis using Inr c by (simp add: delete_rejected)
  next
    case None
    from delete_run[OF Inr None c] obtain n r w' where
      run: "resourceRelayNamespaceDelete meta d w = Some (delete_result nid r, w')"
      and cs: "calls w' = (clock w, DeleteCall nid) # tick_calls nid (clock w) 15 n"
      and tm: "0 < n \<longrightarrow> (n - 1) * 15 < d_TimeoutDelete d"
      and fin: "(r = (None, Some TimeoutError) \<and> clock w' = clock w + d_TimeoutDelete d
             \<and> d_TimeoutDelete d \<le> n * 15 \<and> (\<forall>i < n. snd (get_responses w i) = None))
          \<or> (0 < n \<and> snd (get_responses w (n - 1)) \<noteq> None
              \<and> r = terminal_result nid (get_responses w (n - 1))
              \<and> clock w' = clock w + (n - 1) * 15)"
      by blast
    have r: "r = (None, Some TimeoutError)" and clk: "clock w' = clock w + d_TimeoutDelete d"
      using fin ex by auto
    have P: "probe_times (calls w') = map (\<lambda>i. clock w + i * 15) [0..<n]"
      using cs by (simp add: probe_times_tick_calls)
    have "\<forall>t \<in> set (probe_times (calls w')). t < clock w + d_TimeoutDelete d"
    proof
      fix t assume "t \<in> set (probe_times (calls w'))"
      then obtain i where i: "i < n" "t = clock w + i * 15" unfolding P by auto
      then have "i * 15 \<le> (n - 1) * 15" by simp
      moreover have "(n - 1) * 15 < d_TimeoutDelete d" using tm i by simp
      ultimately show "t < clock w + d_TimeoutDelete d" using i by simp
    qed
    moreover have "delete_result nid r =
        Some (Errorf ''waiting for deletion of %s: %+v'' [ArgNamespaceId nid] (Some TimeoutError))"
      using r by (simp add: delete_result_def)
    ultimately show ?thesis using run clk Inr by simp
  qed
qed

theorem delete_deadline_respected_witness:
  "\<exists>w'. resourceRelayNamespaceDelete example_meta (example_data ''/sub/rg/relay1'' False 20)
            (example_world (\<lambda>n. found) None) =
            Some (Some (Errorf ''waiting for deletion of %s: %+v'' [ArgNamespaceId example_id]
                          (Some TimeoutError)), w')
          \<and> clock w' = 20 \<and> probe_times (calls w') = [0, 15]"
proof -
  let ?w = "example_world (\<lambda>n. found) None"
  let ?d = "example_data ''/sub/rg/relay1'' False 20"
  have p: "ParseNamespaceID example_meta (d_Id ?d) = Inr example_id \<and> snd (delete_response ?w) = None"
    by (simp add: example_meta_def example_data_def example_world_def)
  have c: "calls ?w = []" by (simp add: example_world_def)
  have ex: "\<forall>n. snd (get_responses ?w n) = None" by (simp add: example_world_def found_def)
  have ev: "map_option (\<lambda>rw. (clock (snd rw), probe_times (calls (snd rw))))
              (resourceRelayNamespaceDelete example_meta ?d ?w) = Some (20, [0, 15])"
    by (simp add: resourceRelayNamespaceDelete_def example_meta_def example_data_def
        example_world_def found_def client_Delete_def WaitForStateContext_def wait_loop.simps
        relayNamespaceDeleteRefreshFunc_def client_Get_def record_call_def sleep_until_def
        probe_times_def)
  from delete_deadline_respected[OF c ex, of example_meta ?d] p ev
  show ?thesis by auto
qed

text \<open>
  C4 (the refresh step is a three-way case split). One probe sends one \<open>Get\<close> and returns
  state \<open>Deleted\<close> without error exactly when the \<open>Get\<close> failed with a 404, an error
  (with state \<open>Error\<close>) exactly when it failed otherwise, and state \<open>Pending\<close> without
  error exactly when it succeeded; there is no fourth state. In the poll, \<open>Deleted\<close> and
  the error end the loop with this probe, and \<open>Pending\<close> sends it on to the next tick.
\<close>

theorem refresh_three_way:
  assumes g: "get_responses w (length (probe_times (calls w))) = (resp, gerr)"
  shows "\<exists>res st err.
       relayNamespaceDeleteRefreshFunc nid w = ((res, st, err), record_call (GetCall nid) w)
       \<and> (st = ''Deleted'' \<and> err = None \<longleftrightarrow> gerr \<noteq> None \<and> WasNotFound (get_HttpResponse resp))
       \<and> (err \<noteq> None \<longleftrightarrow> gerr \<noteq> None \<and> \<not> WasNotFound (get_HttpResponse resp))
       \<and> (st = ''Error'' \<longleftrightarrow> err \<noteq> None)
       \<and> (st = ''Pending'' \<longleftrightarrow> gerr = None)
       \<and> (st = ''Deleted'' \<or> st = ''Error'' \<or> st = ''Pending'')
       \<and> (\<forall>dl T. clock w < dl \<longrightarrow>
             wait_loop \<lparr>Pending = [''Pending''], Target = [''Deleted''],
                         Refresh = relayNamespaceDeleteRefreshFunc nid,
                         MinTimeout = 15, Timeout = T\<rparr> dl w =
               (if st = ''Pending''
                then wait_loop \<lparr>Pending = [''Pending''], Target = [''Deleted''],
                                 Refresh = relayNamespaceDeleteRefreshFunc nid,
                                 MinTimeout = 15, Timeout = T\<rparr> dl
                       (sleep_until (min (clock w + 15) dl) (record_call (GetCall nid) w))
                else Some ((if err = None then res else None, err),
                           record_call (GetCall nid) w)))"
proof -
  obtain res st err where o: "probe_outcome nid (resp, gerr) = (res, st, err)"
    by (cases "probe_outcome nid (resp, gerr)") auto
  have r: "relayNamespaceDeleteRefreshFunc nid w = ((res, st, err), record_call (GetCall nid) w)"
    using o g by (simp add: refresh_eq)
  have a: "st = ''Deleted'' \<and> err = None \<longleftrightarrow> gerr \<noteq> None \<and> WasNotFound (get_HttpResponse resp)"
    using o by (auto simp: probe_outcome_def split: option.splits if_splits)
  have b: "err \<noteq> None \<longleftrightarrow> gerr \<noteq> None \<and> \<not> WasNotFound (get_HttpResponse resp)"
    using o by (auto simp: probe_outcome_def split: option.splits if_splits)
  have c: "st = ''Error'' \<longleftrightarrow> err \<noteq> None"
    using o by (auto simp: probe_outcome_def split: option.splits if_splits)
  have d: "st = ''Pending'' \<longleftrightarrow> gerr = None"
    using o by (auto simp: probe_outcome_def split: option.splits if_splits)
  have e: "st = ''Deleted'' \<or> st = ''Error'' \<or> st = ''Pending''"
    using o by (auto simp: probe_outcome_def split: option.splits if_splits)
  have f: "\<forall>dl T. clock w < dl \<longrightarrow>
             wait_loop \<lparr>Pending = [''Pending''], Target = [''Deleted''],
                         Refresh = relayNamespaceDeleteRefreshFunc nid,
                         MinTimeout = 15, Timeout = T\<rparr> dl w =
               (if st = ''Pending''
                then wait_loop \<lparr>Pending = [''Pending''], Target = [''Deleted''],
                                 Refresh = relayNamespaceDeleteRefreshFunc nid,
                                 MinTimeout = 15, Timeout = T\<rparr> dl
                       (sleep_until (min (clock w + 15) dl) (record_call (GetCall nid) w))
                else Some ((if err = None then res else None, err),
                           record_call (GetCall nid) w))"
  proof (intro allI impI)
    fix dl T assume "clock w < dl"
    show "wait_loop \<lparr>Pending = [''Pending''], Target = [''Deleted''],
                         Refresh = relayNamespaceDeleteRefreshFunc nid,
                         MinTimeout = 15, Timeout = T\<rparr> dl w =
               (if st = ''Pending''
                then wait_loop \<lparr>Pending = [''Pending''], Target = [''Deleted''],
                                 Refresh = relayNamespaceDeleteRefreshFunc nid,
                                 MinTimeout = 15, Timeout = T\<rparr> dl
                       (sleep_until (min (clock w + 15) dl) (record_call (GetCall nid) w))
                else Some ((if err = None then res else None, err),
                           record_call (GetCall nid) w))"
    proof (cases "st = ''Pending''")
      case True
      then have "err = None" using d o by (auto simp: probe_outcome_def split: option.splits if_splits)
      then show ?thesis using True r \<open>clock w < dl\<close>
        by (subst wait_loop.simps) simp
    next
      case False
      then consider "st = ''Deleted''" "err = None" | "st = ''Error''" "err \<noteq> None"
        using o by (auto simp: probe_outcome_def split: option.splits if_splits)
      then show ?thesis
      proof cases
        case 1
        then show ?thesis using r \<open>clock w < dl\<close>
          by (subst wait_loop.simps) simp
      next
        case 2
        then obtain x where "err = Some x" by auto
        then show ?thesis using 2 r \<open>clock w < dl\<close>
          by (subst wait_loop.simps) simp
      qed
    qed
  qed
  show ?thesis
    by (intro exI[of _ res] exI[of _ st] exI[of _ err] conjI) (rule r a b c d e f)+
qed

theorem refresh_three_way_witness:
  "relayNamespaceDeleteRefreshFunc example_id (example_world (\<lambda>n. not_found) None) =
      ((Some \<lparr>get_HttpResponse = Some 404, get_Model = None\<rparr>, ''Deleted'', None),
       record_call (GetCall example_id) (example_world (\<lambda>n. not_found) None))
   \<and> wait_loop \<lparr>Pending = [''Pending''], Target = [''Deleted''],
                  Refresh = relayNamespaceDeleteRefreshFunc example_id,
                  MinTimeout = 15, Timeout = 60\<rparr> 60 (example_world (\<lambda>n. not_found) None) =
       Some ((Some \<lparr>get_HttpResponse = Some 404, get_Model = None\<rparr>, None),
             record_call (GetCall example_id) (example_world (\<lambda>n. not_found) None))"
proof -
  let ?w = "example_world (\<lambda>n. not_found) None"
  have g: "get_responses ?w (length (probe_times (calls ?w))) =
             (\<lparr>get_HttpResponse = Some 404, get_Model = None\<rparr>, Some (ClientError ''404''))"
    by (simp add: example_world_def not_found_def)
  have nf: "WasNotFound (get_HttpResponse \<lparr>get_HttpResponse = Some 404, get_Model = None\<rparr>)"
    by (simp add: WasNotFound_def)
  have ev: "fst (relayNamespaceDeleteRefreshFunc example_id ?w) =
      (Some \<lparr>get_HttpResponse = Some 404, get_Model = None\<rparr>, ''Deleted'', None)"
    by (simp add: relayNamespaceDeleteRefreshFunc_def client_Get_def example_world_def
        not_found_def WasNotFound_def)
  have clk: "clock ?w < 60" by (simp add: example_world_def)
  from refresh_three_way[OF g, of example_id] obtain res st err where
    r: "relayNamespaceDeleteRefreshFunc example_id ?w = ((res, st, err), record_call (GetCall example_id) ?w)"
    and l: "\<forall>dl T. clock ?w < dl \<longrightarrow>
             wait_loop \<lparr>Pending = [''Pending''], Target = [''Deleted''],
                         Refresh = relayNamespaceDeleteRefreshFunc example_id,
                         MinTimeout = 15, Timeout = T\<rparr> dl ?w =
               (if st = ''Pending''
                then wait_loop \<lparr>Pending = [''Pending''], Target = [''Deleted''],
                                 Refresh = relayNamespaceDeleteRefreshFunc example_id,
                                 MinTimeout = 15, Timeout = T\<rparr> dl
                       (sleep_until (min (clock ?w + 15) dl) (record_call (GetCall example_id) ?w))
                else Some ((if err = None then res else None, err),
                           record_call (GetCall example_id) ?w))"
    by (elim exE conjE) (rule that, assumption+)
  have v: "res = Some \<lparr>get_HttpResponse = Some 404, get_Model = None\<rparr>" "st = ''Deleted''" "err = None"
    using r ev by simp_all
  from l[rule_format, OF clk, of 60] v r show ?thesis by simp
qed

text \<open>
  C5 (poll floor and fetch count). Consecutive probes of a run are at least 15 seconds
  apart. When the first \<open>k\<close> answers report the resource and answer \<open>k\<close> is a 404, and probe
  \<open>k\<close> takes place, the run makes exactly \<open>k + 1\<close> probes and succeeds. Probe \<open>k\<close> takes
  place exactly when the id parses, the delete request is accepted and \<open>k\<close> intervals of 15
  seconds fit before the timeout.
\<close>

theorem delete_poll_floor:
  assumes c: "calls w = []"
    and pk: "\<forall>i<k. snd (get_responses w i) = None"
    and nf: "get_responses w k = (res, Some e)" "WasNotFound (get_HttpResponse res)"
  shows "\<exists>r w'. resourceRelayNamespaceDelete meta d w = Some (r, w')
       \<and> (\<forall>i. Suc i < length (probe_times (calls w')) \<longrightarrow>
              probe_times (calls w') ! i + 15 \<le> probe_times (calls w') ! Suc i)
       \<and> (k < length (probe_times (calls w')) \<longleftrightarrow>
            (\<exists>nid. ParseNamespaceID meta (d_Id d) = Inr nid) \<and> snd (delete_response w) = None
            \<and> k * 15 < d_TimeoutDelete d)
       \<and> (k < length (probe_times (calls w')) \<longrightarrow>
            length (probe_times (calls w')) = k + 1 \<and> r = None)"
proof (cases "ParseNamespaceID meta (d_Id d)")
  case (Inl err)
  then show ?thesis using c by (simp add: delete_parse_fail)
next
  case (Inr nid)
  show ?thesis
  proof (cases "snd (delete_response w)")
    case (Some err)
    then show ?thesis using Inr c by (simp add: delete_rejected)
  next
    case None
    from delete_run[OF Inr None c] obtain n r w' where
      run: "resourceRelayNamespaceDelete meta d w = Some (delete_result nid r, w')"
      and cs: "calls w' = (clock w, DeleteCall nid) # tick_calls nid (clock w) 15 n"
      and pend: "\<forall>i. Suc i < n \<longrightarrow> snd (get_responses w i) = None"
      and tm: "0 < n \<longrightarrow> (n - 1) * 15 < d_TimeoutDelete d"
      and fin: "(r = (None, Some TimeoutError) \<and> clock w' = clock w + d_TimeoutDelete d
             \<and> d_TimeoutDelete d \<le> n * 15 \<and> (\<forall>i < n. snd (get_responses w i) = None))
          \<or> (0 < n \<and> snd (get_responses w (n - 1)) \<noteq> None
              \<and> r = terminal_result nid (get_responses w (n - 1))
              \<and> clock w' = clock w + (n - 1) * 15)"
      by blast
    have P: "probe_times (calls w') = map (\<lambda>i. clock w + i * 15) [0..<n]"
      using cs by (simp add: probe_times_tick_calls)
    then have L: "length (probe_times (calls w')) = n" by simp
    have sep: "\<forall>i. Suc i < length (probe_times (calls w')) \<longrightarrow>
              probe_times (calls w') ! i + 15 \<le> probe_times (calls w') ! Suc i"
      unfolding P by simp
    have notpend: "snd (get_responses w k) \<noteq> None" using nf by simp
    have le: "n \<le> Suc k"
    proof (rule ccontr)
      assume "\<not> n \<le> Suc k"
      then have "Suc k < n" by simp
      then have "snd (get_responses w k) = None" using pend by simp
      then show False using notpend by simp
    qed
    have fwd: "k < n \<Longrightarrow> k * 15 < d_TimeoutDelete d"
      using tm le by (cases "n = Suc k") auto
    have bwd: "k * 15 < d_TimeoutDelete d \<Longrightarrow> k < n"
    proof (rule ccontr)
      assume tk: "k * 15 < d_TimeoutDelete d" and "\<not> k < n"
      then have nk: "n \<le> k" by simp
      from fin show False
      proof
        assume "r = (None, Some TimeoutError) \<and> clock w' = clock w + d_TimeoutDelete d
             \<and> d_TimeoutDelete d \<le> n * 15 \<and> (\<forall>i < n. snd (get_responses w i) = None)"
        then have "d_TimeoutDelete d \<le> n * 15" by blast
        moreover have "n * 15 \<le> k * 15" using nk by simp
        ultimately show False using tk by simp
      next
        assume t: "0 < n \<and> snd (get_responses w (n - 1)) \<noteq> None
              \<and> r = terminal_result nid (get_responses w (n - 1))
              \<and> clock w' = clock w + (n - 1) * 15"
        then have "0 < n" by blast
        then have "n - 1 < k" using nk by arith
        then have "snd (get_responses w (n - 1)) = None" using pk by simp
        then show False using t by simp
      qed
    qed
    have res: "k < n \<Longrightarrow> delete_result nid r = None"
    proof -
      assume "k < n"
      then have n: "n = Suc k" using le by simp
      have "r = terminal_result nid (get_responses w k)"
        using fin n notpend by auto
      then show ?thesis using nf by (simp add: terminal_result_def delete_result_def)
    qed
    show ?thesis
      using run L sep Inr None le fwd bwd res
      by (intro exI[of _ "delete_result nid r"] exI[of _ w']) auto
  qed
qed

theorem delete_poll_floor_witness:
  "\<exists>w'. resourceRelayNamespaceDelete example_meta (example_data ''/sub/rg/relay1'' False 60)
            (example_world (\<lambda>n. if n < 2 then found else not_found) None) = Some (None, w')
        \<and> probe_times (calls w') = [0, 15, 30]"
proof -
  let ?w = "example_world (\<lambda>n. if n < 2 then found else not_found) None"
  let ?d = "example_data ''/sub/rg/relay1'' False 60"
  let ?res = "\<lparr>get_HttpResponse = Some 404, get_Model = None\<rparr>"
  have c: "calls ?w = []" by (simp add: example_world_def)
  have pk: "\<forall>i<2. snd (get_responses ?w i) = None" by (simp add: example_world_def found_def)
  have nf: "get_responses ?w 2 = (?res, Some (ClientError ''404''))"
    by (simp add: example_world_def not_found_def)
  have nf2: "WasNotFound (get_HttpResponse ?res)" by (simp add: WasNotFound_def)
  have h: "(\<exists>nid. ParseNamespaceID example_meta (d_Id ?d) = Inr nid) \<and> snd (delete_response ?w) = None
            \<and> 2 * 15 < d_TimeoutDelete ?d"
    by (simp add: example_meta_def example_data_def example_world_def)
  have ev: "map_option (\<lambda>rw. probe_times (calls (snd rw)))
              (resourceRelayNamespaceDelete example_meta ?d ?w) = Some [0, 15, 30]"
    by (simp add: resourceRelayNamespaceDelete_def example_meta_def example_data_def
        example_world_def found_def not_found_def client_Delete_def WaitForStateContext_def
        wait_loop.simps relayNamespaceDeleteRefreshFunc_def client_Get_def record_call_def
        sleep_until_def probe_times_def WasNotFound_def)
  from delete_poll_floor[OF c pk nf nf2, of example_meta ?d] h ev
  show ?thesis by auto
qed

text \<open>
  C6 (one delete request, then probes only). For a stored id that parses, the log of a
  \<open>Delete\<close> run is one delete request followed by existence probes only, however many
  ticks follow. The run succeeds exactly when its last probe was answered with a 404. The
  response and the poller that the delete request hands back are not read: replacing them
  changes neither the result, nor the log, nor the time of return.
\<close>

theorem delete_single_request:
  assumes p: "ParseNamespaceID meta (d_Id d) = Inr nid"
    and c: "calls w = []"
  shows "\<exists>r w' ts. resourceRelayNamespaceDelete meta d w = Some (r, w')
       \<and> calls w' = (clock w, DeleteCall nid) # map (\<lambda>t. (t, GetCall nid)) ts
       \<and> length (filter (\<lambda>c. is_DeleteCall (snd c)) (calls w')) = 1
       \<and> (r = None \<longleftrightarrow>
            ts \<noteq> [] \<and> snd (get_responses w (length ts - 1)) \<noteq> None
            \<and> WasNotFound (get_HttpResponse (fst (get_responses w (length ts - 1)))))
       \<and> (\<forall>resp. map_option (\<lambda>rw. (fst rw, calls (snd rw), clock (snd rw)))
                    (resourceRelayNamespaceDelete meta d
                       (w\<lparr>delete_response := (resp, snd (delete_response w))\<rparr>))
                  = Some (r, calls w', clock w'))"
proof -
  have indep: "\<And>r w'. resourceRelayNamespaceDelete meta d w = Some (r, w') \<Longrightarrow>
      (\<forall>resp. map_option (\<lambda>rw. (fst rw, calls (snd rw), clock (snd rw)))
                    (resourceRelayNamespaceDelete meta d
                       (w\<lparr>delete_response := (resp, snd (delete_response w))\<rparr>))
                  = Some (r, calls w', clock w'))"
    by (simp add: delete_ignores_delete_handle)
  have nodel: "\<And>ts. filter (\<lambda>c. is_DeleteCall (snd c)) (map (\<lambda>t. (t, GetCall nid)) ts) = []"
    by (simp add: filter_empty_conv)
  show ?thesis
  proof (cases "snd (delete_response w)")
    case (Some err)
    have run: "resourceRelayNamespaceDelete meta d w =
       Some (Some (Errorf ''deleting %s: %+v'' [ArgNamespaceId nid] (Some err)),
             record_call (DeleteCall nid) w)"
      by (rule delete_rejected[OF p Some])
    show ?thesis
      using run c indep[OF run]
      by (intro exI[of _ "Some (Errorf ''deleting %s: %+v'' [ArgNamespaceId nid] (Some err))"]
            exI[of _ "record_call (DeleteCall nid) w"] exI[of _ "[]"]) simp
  next
    case None
    from delete_run[OF p None c] obtain n r w' where
      run: "resourceRelayNamespaceDelete meta d w = Some (delete_result nid r, w')"
      and cs: "calls w' = (clock w, DeleteCall nid) # tick_calls nid (clock w) 15 n"
      and fin: "(r = (None, Some TimeoutError) \<and> clock w' = clock w + d_TimeoutDelete d
             \<and> d_TimeoutDelete d \<le> n * 15 \<and> (\<forall>i < n. snd (get_responses w i) = None))
          \<or> (0 < n \<and> snd (get_responses w (n - 1)) \<noteq> None
              \<and> r = terminal_result nid (get_responses w (n - 1))
              \<and> clock w' = clock w + (n - 1) * 15)"
      by blast
    let ?ts = "map (\<lambda>i. clock w + i * 15) [0..<n]"
    have cs': "calls w' = (clock w, DeleteCall nid) # map (\<lambda>t. (t, GetCall nid)) ?ts"
      using cs by (simp add: tick_calls_def o_def)
    have one: "length (filter (\<lambda>c. is_DeleteCall (snd c)) (calls w')) = 1"
      unfolding cs' by (simp add: nodel)
    have dec: "delete_result nid r = None \<longleftrightarrow>
            ?ts \<noteq> [] \<and> snd (get_responses w (length ?ts - 1)) \<noteq> None
            \<and> WasNotFound (get_HttpResponse (fst (get_responses w (length ?ts - 1))))"
      using fin
    proof
      assume t: "r = (None, Some TimeoutError) \<and> clock w' = clock w + d_TimeoutDelete d
             \<and> d_TimeoutDelete d \<le> n * 15 \<and> (\<forall>i < n. snd (get_responses w i) = None)"
      then have "delete_result nid r \<noteq> None" by (simp add: delete_result_def)
      moreover have "0 < n \<Longrightarrow> snd (get_responses w (n - 1)) = None" using t by simp
      ultimately show ?thesis by (cases "n = 0") auto
    next
      assume t: "0 < n \<and> snd (get_responses w (n - 1)) \<noteq> None
              \<and> r = terminal_result nid (get_responses w (n - 1))
              \<and> clock w' = clock w + (n - 1) * 15"
      then show ?thesis by (auto simp: terminal_result_def delete_result_def)
    qed
    show ?thesis
      using run cs' one dec indep[OF run]
      by (intro exI[of _ "delete_result nid r"] exI[of _ w'] exI[of _ ?ts]) blast
  qed
qed

theorem delete_single_request_witness:
  "\<exists>w'. resourceRelayNamespaceDelete example_meta (example_data ''/sub/rg/relay1'' False 60)
            (example_world (\<lambda>n. if n < 2 then found else not_found) None) = Some (None, w')
        \<and> calls w' = [(0, DeleteCall example_id), (0, GetCall example_id),
                       (15, GetCall example_id), (30, GetCall example_id)]"
proof -
  let ?w = "example_world (\<lambda>n. if n < 2 then found else not_found) None"
  let ?d = "example_data ''/sub/rg/relay1'' False 60"
  have p: "ParseNamespaceID example_meta (d_Id ?d) = Inr example_id"
    by (simp add: example_meta_def example_data_def)
  have c: "calls ?w = []" by (simp add: example_world_def)
  have ev: "map_option (\<lambda>rw. (fst rw, calls (snd rw)))
              (resourceRelayNamespaceDelete example_meta ?d ?w) =
            Some (None, [(0, DeleteCall example_id), (0, GetCall example_id),
                       (15, GetCall example_id), (30, GetCall example_id)])"
    by (simp add: resourceRelayNamespaceDelete_def example_meta_def example_data_def
        example_world_def found_def not_found_def client_Delete_def WaitForStateContext_def
        wait_loop.simps relayNamespaceDeleteRefreshFunc_def client_Get_def record_call_def
        sleep_until_def probe_times_def WasNotFound_def)
  from delete_single_request[OF p c] ev
  show ?thesis by auto
qed

text \<open>
  C7 (a 404 on read is not an error). In both resources, for a stored id that parses: when
  the \<open>Get\<close> of the read fails with a 404, the read clears the stored id and returns no
  error; when it fails otherwise, the read returns an error that carries the id (the
  workspace read prints its name and resource group) and leaves the resource data as it
  was. Either way the read has sent that one request only.
\<close>

theorem read_not_found_is_success:
  assumes "ParseNamespaceID meta (d_Id d) = Inr nid"
    and "get_responses w (length (probe_times (calls w))) = (resp, Some e)"
    and "ParseWorkspaceID mmeta (ml_Id md) = Inr wid"
    and "ml_get_responses mw (length (filter is_MLGetCall (ml_calls mw))) = (mresp, Some me)"
  shows "resourceRelayNamespaceRead meta d w =
           (if WasNotFound (get_HttpResponse resp)
            then (None, d\<lparr>d_Id := []\<rparr>, record_call (GetCall nid) w)
            else (Some (Errorf ''retrieving %s: %+v'' [ArgNamespaceId nid] (Some e)), d,
                  record_call (GetCall nid) w))
       \<and> resourceMachineLearningWorkspaceRead mmeta md mw =
           (if WasNotFound (wsget_HttpResponse mresp)
            then (None, md\<lparr>ml_Id := []\<rparr>, mw\<lparr>ml_calls := ml_calls mw @ [MLGetCall wid]\<rparr>)
            else (Some (Errorf ''making Read request on Workspace %q (Resource Group %q): %+v''
                          [ArgString (ws_WorkspaceName wid), ArgString (ws_ResourceGroupName wid)]
                          (Some me)), md,
                  mw\<lparr>ml_calls := ml_calls mw @ [MLGetCall wid]\<rparr>))"
  using assms
  by (simp add: resourceRelayNamespaceRead_def client_Get_def
      resourceMachineLearningWorkspaceRead_def ml_client_Get_def)


theorem read_not_found_is_success_witness:
  "resourceRelayNamespaceRead example_meta (example_data ''/sub/rg/relay1'' False 60)
       (example_world (\<lambda>n. not_found) None) =
     (None, (example_data ''/sub/rg/relay1'' False 60)\<lparr>d_Id := []\<rparr>,
      record_call (GetCall example_id) (example_world (\<lambda>n. not_found) None))
   \<and> resourceMachineLearningWorkspaceRead example_ml_meta
       (example_ml_data ''/sub/rg/ws1'' False ''Default'' []) (example_ml_world (\<lambda>n. ml_failed)) =
     (Some (Errorf ''making Read request on Workspace %q (Resource Group %q): %+v''
              [ArgString ''ws1'', ArgString ''rg''] (Some (ClientError ''500''))),
      example_ml_data ''/sub/rg/ws1'' False ''Default'' [],
      (example_ml_world (\<lambda>n. ml_failed))\<lparr>ml_calls := [MLGetCall example_workspace_id]\<rparr>)"
proof -
  let ?d = "example_data ''/sub/rg/relay1'' False 60"
  let ?w = "example_world (\<lambda>n. not_found) None"
  let ?md = "example_ml_data ''/sub/rg/ws1'' False ''Default'' []"
  let ?mw = "example_ml_world (\<lambda>n. ml_failed)"
  have h1: "ParseNamespaceID example_meta (d_Id ?d) = Inr example_id"
    by (simp add: example_meta_def example_data_def)
  have h2: "get_responses ?w (length (probe_times (calls ?w))) =
              (\<lparr>get_HttpResponse = Some 404, get_Model = None\<rparr>, Some (ClientError ''404''))"
    by (simp add: example_world_def not_found_def)
  have h3: "ParseWorkspaceID example_ml_meta (ml_Id ?md) = Inr example_workspace_id"
    by (simp add: example_ml_meta_def example_ml_data_def)
  have h4: "ml_get_responses ?mw (length (filter is_MLGetCall (ml_calls ?mw))) =
              (\<lparr>wsget_HttpResponse = Some 500, wsget_Model = None\<rparr>, Some (ClientError ''500''))"
    by (simp add: example_ml_world_def ml_failed_def)
  from read_not_found_is_success[OF h1 h2 h3 h4]
  show ?thesis
    by (simp add: WasNotFound_def example_workspace_id_def example_ml_world_def)
qed

text \<open>
  C8 (new-resource guard), as amended. In both resources, for a resource marked new whose
  up-front \<open>Get\<close> is not answered with a 404: the create returns an error, the resource
  data (the stored id with it) is unchanged, and the log has grown by that \<open>Get\<close> only, so
  no create-or-update request was sent. The error is the import-as-exists error for the id
  when the \<open>Get\<close> succeeded (the remote resource exists), and the failure of the \<open>Get\<close>,
  wrapped as a presence check, when the \<open>Get\<close> failed.
\<close>

theorem create_new_resource_guard:
  assumes "d_IsNewResource d"
    and "get_responses w (length (probe_times (calls w))) = (existing, err)"
    and "\<not> WasNotFound (get_HttpResponse existing)"
    and "ml_IsNewResource md"
    and "ml_get_responses mw (length (filter is_MLGetCall (ml_calls mw))) = (mexisting, merr)"
    and "\<not> WasNotFound (wsget_HttpResponse mexisting)"
  shows "resourceRelayNamespaceCreateUpdate meta d w =
           (Some (if err = None
                  then ImportAsExistsError ''azurerm_relay_namespace''
                         (NamespaceID_ID meta
                            (NewNamespaceID (SubscriptionId meta) (d_resource_group_name d) (d_name d)))
                  else Errorf ''checking for presence of existing %s: %+v''
                         [ArgNamespaceId
                            (NewNamespaceID (SubscriptionId meta) (d_resource_group_name d) (d_name d))]
                         err),
            d,
            record_call
              (GetCall (NewNamespaceID (SubscriptionId meta) (d_resource_group_name d) (d_name d))) w)
       \<and> resourceMachineLearningWorkspaceCreateOrUpdate mmeta md mw =
           (Some (if merr = None
                  then ImportAsExistsError ''azurerm_machine_learning_workspace''
                         (WorkspaceID_ID mmeta
                            (NewWorkspaceID (ml_SubscriptionId mmeta) (ml_resource_group_name md)
                               (ml_name md)))
                  else Errorf ''checking for presence of existing %s: %+v''
                         [ArgWorkspaceId
                            (NewWorkspaceID (ml_SubscriptionId mmeta) (ml_resource_group_name md)
                               (ml_name md))]
                         merr),
            md,
            mw\<lparr>ml_calls := ml_calls mw @
                   [MLGetCall (NewWorkspaceID (ml_SubscriptionId mmeta) (ml_resource_group_name md)
                                 (ml_name md))]\<rparr>)"
  using assms
  by (simp add: resourceRelayNamespaceCreateUpdate_def client_Get_def
      resourceMachineLearningWorkspaceCreateOrUpdate_def ml_client_Get_def Let_def)

theorem create_new_resource_guard_witness:
  "resourceRelayNamespaceCreateUpdate example_meta (example_data [] True 60)
       (example_world (\<lambda>n. found) None) =
     (Some (ImportAsExistsError ''azurerm_relay_namespace'' ''/sub/rg/relay1''),
      example_data [] True 60,
      record_call (GetCall example_id) (example_world (\<lambda>n. found) None))
   \<and> resourceMachineLearningWorkspaceCreateOrUpdate example_ml_meta
       (example_ml_data [] True ''Default'' []) (example_ml_world (\<lambda>n. ml_found)) =
     (Some (ImportAsExistsError ''azurerm_machine_learning_workspace'' ''/sub/rg/ws1''),
      example_ml_data [] True ''Default'' [],
      (example_ml_world (\<lambda>n. ml_found))\<lparr>ml_calls := [MLGetCall example_workspace_id]\<rparr>)"
proof -
  let ?d = "example_data [] True 60"
  let ?w = "example_world (\<lambda>n. found) None"
  let ?md = "example_ml_data [] True ''Default'' []"
  let ?mw = "example_ml_world (\<lambda>n. ml_found)"
  have h1: "d_IsNewResource ?d" by (simp add: example_data_def)
  have h2: "get_responses ?w (length (probe_times (calls ?w))) =
              (\<lparr>get_HttpResponse = Some 200, get_Model = None\<rparr>, None)"
    by (simp add: example_world_def found_def)
  have h3: "\<not> WasNotFound (get_HttpResponse \<lparr>get_HttpResponse = Some 200, get_Model = None\<rparr>)"
    by (simp add: WasNotFound_def)
  have h4: "ml_IsNewResource ?md" by (simp add: example_ml_data_def)
  have h5: "ml_get_responses ?mw (length (filter is_MLGetCall (ml_calls ?mw))) =
              (\<lparr>wsget_HttpResponse = Some 200, wsget_Model = None\<rparr>, None)"
    by (simp add: example_ml_world_def ml_found_def)
  have h6: "\<not> WasNotFound (wsget_HttpResponse \<lparr>wsget_HttpResponse = Some 200, wsget_Model = None\<rparr>)"
    by (simp add: WasNotFound_def)
  have n1: "NewNamespaceID (SubscriptionId example_meta) (d_resource_group_name ?d) (d_name ?d)
              = example_id"
    by (simp add: NewNamespaceID_def example_meta_def example_data_def example_id_def)
  have n2: "NewWorkspaceID (ml_SubscriptionId example_ml_meta) (ml_resource_group_name ?md)
              (ml_name ?md) = example_workspace_id"
    by (simp add: NewWorkspaceID_def example_ml_meta_def example_ml_data_def
        example_workspace_id_def)
  have i1: "NamespaceID_ID example_meta example_id = ''/sub/rg/relay1''"
    by (simp add: example_meta_def example_id_def)
  have i2: "WorkspaceID_ID example_ml_meta example_workspace_id = ''/sub/rg/ws1''"
    by (simp add: example_ml_meta_def example_workspace_id_def)
  from create_new_resource_guard[OF h1 h2 h3 h4 h5 h6, of example_meta example_ml_meta]
  show ?thesis unfolding n1 n2 i1 i2
    by (simp add: example_ml_world_def)
qed

text \<open>
  C8 as first stated promises the import-as-exists error whenever the up-front \<open>Get\<close> does
  not report a 404. A \<open>Get\<close> that fails with a server error does not report a 404
  either, and the create then returns that failure as a presence-check error instead.
\<close>

theorem create_new_resource_guard_counterexample:
  "d_IsNewResource (example_data [] True 60)
   \<and> \<not> WasNotFound (get_HttpResponse (fst (get_responses (example_world (always failed) None) 0)))
   \<and> fst (resourceRelayNamespaceCreateUpdate example_meta (example_data [] True 60)
            (example_world (always failed) None)) =
       Some (Errorf ''checking for presence of existing %s: %+v'' [ArgNamespaceId example_id]
               (Some (ClientError ''500'')))
   \<and> fst (resourceRelayNamespaceCreateUpdate example_meta (example_data [] True 60)
            (example_world (always failed) None)) \<noteq>
       Some (ImportAsExistsError ''azurerm_relay_namespace'' ''/sub/rg/relay1'')"
  by (simp add: resourceRelayNamespaceCreateUpdate_def client_Get_def example_meta_def
      example_data_def example_world_def always_def failed_def WasNotFound_def
      NewNamespaceID_def example_id_def probe_times_def Let_def)

text \<open>
  C9 (kind and feature store must agree). A feature store block is supplied when the
  \<open>feature_store\<close> list has a first element that is not nil, that is, when its expansion
  is not nil. A workspace create-or-update whose kind is \<open>Default\<close> (compared
  case-insensitively) with a feature store block, or whose kind is not \<open>Default\<close> without
  one, returns an error, leaves the resource data unchanged and sends no create-or-update
  request. When the kind is not \<open>Default\<close>, every create-or-update request of the run
  carries the expanded feature store settings; and the request is sent whenever the
  new-resource guard lets the run pass and the request body is built without error.
\<close>

theorem kind_feature_store_validation:
  assumes c: "ml_calls w = []"
  shows "\<exists>r d' w'.
       resourceMachineLearningWorkspaceCreateOrUpdate meta d w = (r, d', w')
       \<and> ((EqualFold (ml_kind d) ''Default''
              \<and> expandMachineLearningWorkspaceFeatureStore (ml_feature_store d) \<noteq> None)
            \<or> (\<not> EqualFold (ml_kind d) ''Default''
              \<and> expandMachineLearningWorkspaceFeatureStore (ml_feature_store d) = None)
            \<longrightarrow> r \<noteq> None \<and> d' = d \<and> (\<forall>c \<in> set (ml_calls w'). \<not> is_MLCreateOrUpdateCall c))
       \<and> (\<not> EqualFold (ml_kind d) ''Default'' \<longrightarrow>
             (\<forall>wid body. MLCreateOrUpdateCall wid body \<in> set (ml_calls w') \<longrightarrow>
                (\<exists>props. Workspace_Properties body = Some props
                   \<and> FeatureStoreSettings props
                       = expandMachineLearningWorkspaceFeatureStore (ml_feature_store d)
                   \<and> expandMachineLearningWorkspaceFeatureStore (ml_feature_store d) \<noteq> None)))
       \<and> (\<forall>body. (\<not> ml_IsNewResource d
                    \<or> WasNotFound (wsget_HttpResponse (fst (ml_get_responses w 0))))
                  \<and> build_workspace meta d
                       (NewWorkspaceID (ml_SubscriptionId meta) (ml_resource_group_name d) (ml_name d))
                     = Inr body
              \<longrightarrow> MLCreateOrUpdateCall
                    (NewWorkspaceID (ml_SubscriptionId meta) (ml_resource_group_name d) (ml_name d))
                    body \<in> set (ml_calls w'))"
proof -
  let ?wid = "NewWorkspaceID (ml_SubscriptionId meta) (ml_resource_group_name d) (ml_name d)"
  let ?blocked = "ml_IsNewResource d \<and>
     \<not> WasNotFound (wsget_HttpResponse
           (fst (ml_get_responses w (length (filter is_MLGetCall (ml_calls w))))))"
  let ?fs = "expandMachineLearningWorkspaceFeatureStore (ml_feature_store d)"
  from ml_create_log[of meta d w] obtain r d' w' pre post where
    run: "resourceMachineLearningWorkspaceCreateOrUpdate meta d w = (r, d', w')"
    and cs: "ml_calls w' = ml_calls w @ pre @ post"
    and pre: "\<forall>c \<in> set pre. is_MLGetCall c"
    and sh: "(post = [] \<and> r \<noteq> None \<and> d' = d
             \<and> (?blocked \<or> (\<exists>err. build_workspace meta d ?wid = Inl err)))
          \<or> (\<not> ?blocked
              \<and> (\<exists>body rest. build_workspace meta d ?wid = Inr body
                    \<and> post = MLCreateOrUpdateCall ?wid body # rest
                    \<and> (\<forall>c \<in> set rest. \<not> is_MLCreateOrUpdateCall c)))"
    by blast
  have cs': "ml_calls w' = pre @ post" using cs c by simp
  have pre': "\<And>c. c \<in> set pre \<Longrightarrow> \<not> is_MLCreateOrUpdateCall c"
  proof -
    fix c assume "c \<in> set pre"
    then have "is_MLGetCall c" using pre by blast
    then show "\<not> is_MLCreateOrUpdateCall c" by (cases c) auto
  qed
  have A: "(EqualFold (ml_kind d) ''Default'' \<and> ?fs \<noteq> None)
            \<or> (\<not> EqualFold (ml_kind d) ''Default'' \<and> ?fs = None)
            \<longrightarrow> r \<noteq> None \<and> d' = d \<and> (\<forall>c \<in> set (ml_calls w'). \<not> is_MLCreateOrUpdateCall c)"
  proof
    assume mm: "(EqualFold (ml_kind d) ''Default'' \<and> ?fs \<noteq> None)
            \<or> (\<not> EqualFold (ml_kind d) ''Default'' \<and> ?fs = None)"
    from build_workspace_mismatch[OF mm, of meta ?wid]
    obtain err where "build_workspace meta d ?wid = Inl err" by blast
    then have "post = [] \<and> r \<noteq> None \<and> d' = d" using sh by auto
    then show "r \<noteq> None \<and> d' = d \<and> (\<forall>c \<in> set (ml_calls w'). \<not> is_MLCreateOrUpdateCall c)"
      using cs' pre' by auto
  qed
  have B: "\<not> EqualFold (ml_kind d) ''Default'' \<longrightarrow>
             (\<forall>wid body. MLCreateOrUpdateCall wid body \<in> set (ml_calls w') \<longrightarrow>
                (\<exists>props. Workspace_Properties body = Some props
                   \<and> FeatureStoreSettings props = ?fs \<and> ?fs \<noteq> None))"
  proof (intro impI allI)
    fix wid body
    assume nd: "\<not> EqualFold (ml_kind d) ''Default''"
      and m: "MLCreateOrUpdateCall wid body \<in> set (ml_calls w')"
    have "MLCreateOrUpdateCall wid body \<notin> set pre" using pre' by fastforce
    then have inpost: "MLCreateOrUpdateCall wid body \<in> set post" using m cs' by simp
    then have "post \<noteq> []" by auto
    then obtain body' rest where b: "build_workspace meta d ?wid = Inr body'"
      "post = MLCreateOrUpdateCall ?wid body' # rest"
      "\<forall>c \<in> set rest. \<not> is_MLCreateOrUpdateCall c"
      using sh by auto
    have "MLCreateOrUpdateCall wid body \<notin> set rest" using b(3) by fastforce
    then have "body = body'" using inpost b(2) by simp
    then show "\<exists>props. Workspace_Properties body = Some props
                   \<and> FeatureStoreSettings props = ?fs \<and> ?fs \<noteq> None"
      using build_workspace_feature_store[OF b(1) nd] by simp
  qed
  have C: "\<forall>body. (\<not> ml_IsNewResource d
                    \<or> WasNotFound (wsget_HttpResponse (fst (ml_get_responses w 0))))
                  \<and> build_workspace meta d ?wid = Inr body
              \<longrightarrow> MLCreateOrUpdateCall ?wid body \<in> set (ml_calls w')"
  proof (intro allI impI)
    fix body
    assume h: "(\<not> ml_IsNewResource d
                    \<or> WasNotFound (wsget_HttpResponse (fst (ml_get_responses w 0))))
                  \<and> build_workspace meta d ?wid = Inr body"
    then have "\<not> ?blocked" using c by auto
    then obtain rest where "post = MLCreateOrUpdateCall ?wid body # rest"
      using sh h by auto
    then show "MLCreateOrUpdateCall ?wid body \<in> set (ml_calls w')" using cs' by simp
  qed
  show ?thesis
    by (intro exI[of _ r] exI[of _ d'] exI[of _ w'] conjI) (rule run A B C)+
qed


theorem kind_feature_store_validation_witness:
  "(\<exists>d' w'. resourceMachineLearningWorkspaceCreateOrUpdate example_ml_meta
       (example_ml_data ''/sub/rg/ws1'' False ''default''
          [Some \<lparr>computer_spark_runtime_version = ''3.3'', offline_connection_name = ''off'',
                 online_connection_name = []\<rparr>])
       (example_ml_world (\<lambda>n. ml_found)) =
     (Some (Errorf ''`feature_store` can only be set when `kind` is `FeatureStore`'' [] None),
      d', w')
     \<and> ml_calls w' = [])
   \<and> (\<exists>r d' w' body props. resourceMachineLearningWorkspaceCreateOrUpdate example_ml_meta
       (example_ml_data ''/sub/rg/ws1'' False ''FeatureStore''
          [Some \<lparr>computer_spark_runtime_version = ''3.3'', offline_connection_name = ''off'',
                 online_connection_name = []\<rparr>])
       (example_ml_world (\<lambda>n. ml_found)) = (r, d', w')
     \<and> MLCreateOrUpdateCall example_workspace_id body \<in> set (ml_calls w')
     \<and> Workspace_Properties body = Some props
     \<and> FeatureStoreSettings props =
         Some \<lparr>ComputeRuntime = Some \<lparr>SparkRuntimeVersion = Some ''3.3''\<rparr>,
               OfflineStoreConnectionName = Some ''off'', OnlineStoreConnectionName = None\<rparr>)"
proof -
  let ?blk = "[Some \<lparr>computer_spark_runtime_version = ''3.3'', offline_connection_name = ''off'',
                 online_connection_name = []\<rparr>]"
  let ?d1 = "example_ml_data ''/sub/rg/ws1'' False ''default'' ?blk"
  let ?d2 = "example_ml_data ''/sub/rg/ws1'' False ''FeatureStore'' ?blk"
  let ?w = "example_ml_world (\<lambda>n. ml_found)"
  let ?fs = "Some \<lparr>ComputeRuntime = Some \<lparr>SparkRuntimeVersion = Some ''3.3''\<rparr>,
               OfflineStoreConnectionName = Some ''off'', OnlineStoreConnectionName = None\<rparr>"
  have c: "ml_calls ?w = []" by (simp add: example_ml_world_def)
  have "EqualFold ''default'' ''Default''" by code_simp
  then have k1: "EqualFold (ml_kind ?d1) ''Default''" by (simp add: example_ml_data_def)
  have "\<not> EqualFold ''FeatureStore'' ''Default''" by code_simp
  then have k2: "\<not> EqualFold (ml_kind ?d2) ''Default''" by (simp add: example_ml_data_def)
  have f1: "expandMachineLearningWorkspaceFeatureStore (ml_feature_store ?d1) = ?fs"
    by (simp add: example_ml_data_def expandMachineLearningWorkspaceFeatureStore_def)
  have f2: "expandMachineLearningWorkspaceFeatureStore (ml_feature_store ?d2) = ?fs"
    by (simp add: example_ml_data_def expandMachineLearningWorkspaceFeatureStore_def)
  have n2: "NewWorkspaceID (ml_SubscriptionId example_ml_meta) (ml_resource_group_name ?d2)
              (ml_name ?d2) = example_workspace_id"
    by (simp add: NewWorkspaceID_def example_ml_meta_def example_ml_data_def
        example_workspace_id_def)
  have e1: "fst (resourceMachineLearningWorkspaceCreateOrUpdate example_ml_meta ?d1 ?w) =
      Some (Errorf ''`feature_store` can only be set when `kind` is `FeatureStore`'' [] None)"
    using k1
    by (simp add: resourceMachineLearningWorkspaceCreateOrUpdate_def build_workspace_def
        expandMachineLearningWorkspaceIdentity_def example_ml_meta_def example_ml_data_def
        expandMachineLearningWorkspaceFeatureStore_def
        expandMachineLearningWorkspaceServerlessCompute_def Let_def)
  have b2: "\<exists>body. build_workspace example_ml_meta ?d2 example_workspace_id = Inr body"
    using k2
    by (simp add: build_workspace_def
        expandMachineLearningWorkspaceIdentity_def example_ml_meta_def example_ml_data_def
        expandMachineLearningWorkspaceFeatureStore_def
        expandMachineLearningWorkspaceServerlessCompute_def Let_def)
  have n: "\<not> ml_IsNewResource ?d2" by (simp add: example_ml_data_def)
  have P1: "\<exists>d' w'. resourceMachineLearningWorkspaceCreateOrUpdate example_ml_meta ?d1 ?w =
     (Some (Errorf ''`feature_store` can only be set when `kind` is `FeatureStore`'' [] None),
      d', w') \<and> ml_calls w' = []"
  proof -
    from kind_feature_store_validation[OF c, of example_ml_meta ?d1] obtain r d' w' where
      run: "resourceMachineLearningWorkspaceCreateOrUpdate example_ml_meta ?d1 ?w = (r, d', w')"
      and A: "(EqualFold (ml_kind ?d1) ''Default''
              \<and> expandMachineLearningWorkspaceFeatureStore (ml_feature_store ?d1) \<noteq> None)
            \<or> (\<not> EqualFold (ml_kind ?d1) ''Default''
              \<and> expandMachineLearningWorkspaceFeatureStore (ml_feature_store ?d1) = None)
            \<longrightarrow> r \<noteq> None \<and> d' = ?d1 \<and> (\<forall>c \<in> set (ml_calls w'). \<not> is_MLCreateOrUpdateCall c)"
      by (elim exE conjE) (rule that, assumption+)
    have "ml_calls (snd (snd (resourceMachineLearningWorkspaceCreateOrUpdate example_ml_meta ?d1 ?w))) = []"
      using k1
      by (simp add: resourceMachineLearningWorkspaceCreateOrUpdate_def build_workspace_def
        expandMachineLearningWorkspaceIdentity_def example_ml_meta_def example_ml_data_def
        expandMachineLearningWorkspaceFeatureStore_def example_ml_world_def
        expandMachineLearningWorkspaceServerlessCompute_def Let_def)
    then show ?thesis using run e1 by simp
  qed
  have P2: "\<exists>r d' w' body props. resourceMachineLearningWorkspaceCreateOrUpdate example_ml_meta ?d2 ?w
        = (r, d', w')
     \<and> MLCreateOrUpdateCall example_workspace_id body \<in> set (ml_calls w')
     \<and> Workspace_Properties body = Some props
     \<and> FeatureStoreSettings props = ?fs"
  proof -
    from kind_feature_store_validation[OF c, of example_ml_meta ?d2] obtain r d' w' where
      run: "resourceMachineLearningWorkspaceCreateOrUpdate example_ml_meta ?d2 ?w = (r, d', w')"
      and B: "\<not> EqualFold (ml_kind ?d2) ''Default'' \<longrightarrow>
             (\<forall>wid body. MLCreateOrUpdateCall wid body \<in> set (ml_calls w') \<longrightarrow>
                (\<exists>props. Workspace_Properties body = Some props
                   \<and> FeatureStoreSettings props
                       = expandMachineLearningWorkspaceFeatureStore (ml_feature_store ?d2)
                   \<and> expandMachineLearningWorkspaceFeatureStore (ml_feature_store ?d2) \<noteq> None))"
      and C: "\<forall>body. (\<not> ml_IsNewResource ?d2
                    \<or> WasNotFound (wsget_HttpResponse (fst (ml_get_responses ?w 0))))
                  \<and> build_workspace example_ml_meta ?d2
                       (NewWorkspaceID (ml_SubscriptionId example_ml_meta)
                          (ml_resource_group_name ?d2) (ml_name ?d2))
                     = Inr body
              \<longrightarrow> MLCreateOrUpdateCall
                    (NewWorkspaceID (ml_SubscriptionId example_ml_meta)
                          (ml_resource_group_name ?d2) (ml_name ?d2))
                    body \<in> set (ml_calls w')"
      by (elim exE conjE) (rule that, assumption+)
    from b2 obtain body where body: "build_workspace example_ml_meta ?d2 example_workspace_id = Inr body"
      by blast
    have m: "MLCreateOrUpdateCall example_workspace_id body \<in> set (ml_calls w')"
      using C[rule_format, of body] n body unfolding n2 by simp
    from B[rule_format, OF k2 m] obtain props where
      "Workspace_Properties body = Some props" "FeatureStoreSettings props = ?fs"
      unfolding f2 by blast
    then show ?thesis using run m by blast
  qed
  show ?thesis using P1 P2 by (rule conjI)
qed

text \<open>
  C10 (serverless compute round trip). Expanding a block with \<open>public_ip_enabled = b\<close> and
  \<open>subnet_id = s\<close> stores the negation of \<open>b\<close> and a custom subnet only for a non-empty
  \<open>s\<close>; flattening the result gives one block whose \<open>public_ip_enabled\<close> is \<open>b\<close> again and
  whose \<open>subnet_id\<close> is \<open>s\<close> when \<open>s\<close> is non-empty and is absent when \<open>s\<close> is empty.
\<close>

theorem serverless_compute_round_trip:
  "expandMachineLearningWorkspaceServerlessCompute
       (Some \<lparr>public_ip_enabled = b, subnet_id = s\<rparr> # rest) =
     Some \<lparr>ServerlessComputeNoPublicIP = Some (\<not> b),
           ServerlessComputeCustomSubnet = (if s = [] then None else Some s)\<rparr>
   \<and> (\<exists>out. flattenMachineLearningWorkspaceServerlessCompute
               (expandMachineLearningWorkspaceServerlessCompute
                  (Some \<lparr>public_ip_enabled = b, subnet_id = s\<rparr> # rest)) = [out]
          \<and> out ''public_ip_enabled'' = Some (VBool b)
          \<and> out ''subnet_id'' = (if s = [] then None else Some (VString s))
          \<and> dom out = (if s = [] then {''public_ip_enabled''}
                        else {''public_ip_enabled'', ''subnet_id''}))"
  by (auto simp: expandMachineLearningWorkspaceServerlessCompute_def
      flattenMachineLearningWorkspaceServerlessCompute_def Let_def)

end
